theory Spec2Isabelle
  imports Complex_Main
begin

section \<open>Data model\<close>

text \<open>
  JavaScript numbers are modelled as real numbers: the arithmetic of the measurement
  code is read exactly, without the rounding of binary floating point, and without NaN
  or the infinities. A thrown exception is a value of type \<open>error\<close>; a method that can
  throw returns \<open>error + 'a\<close>, with \<open>Inl\<close> for the exception.
\<close>

datatype error = Error string | TypeError string | DeveloperError string

type_synonym 'a result = "error + 'a"

datatype cartesian2 = Cartesian2 (x2: real) (y2: real)

datatype cartesian3 = Cartesian3 (x3: real) (y3: real) (z3: real)

record cartographic =
  longitude :: real
  latitude :: real
  height :: real

datatype status = INIT | WORKING | DESTROY

text \<open>
  The classes of the module. \<open>kind\<close> is the class an object was constructed from; the
  overridden methods dispatch on it.
\<close>

datatype kind = MeasureK | AreaK | AreaSurfaceK | DistanceK | DistanceSurfaceK

text \<open>
  The viewer is Cesium's and is not part of the module. The model keeps the queries the
  module makes of it: \<open>scene.pickPosition\<close> (undefined where no surface is hit),
  \<open>scene.globe.ellipsoid.cartesianToCartographic\<close>,
  \<open>SceneTransforms.worldToWindowCoordinates\<close> for its scene (undefined for a point that
  has no window position) and \<open>isDestroyed()\<close>.
\<close>

record viewer =
  pickPosition :: "cartesian2 \<Rightarrow> cartesian3 option"
  cartesianToCartographic :: "cartesian3 \<Rightarrow> cartographic"
  worldToWindowCoordinates :: "cartesian3 \<Rightarrow> cartesian2 option"
  isDestroyed :: bool

text \<open>
  The imported library functions whose results the module only passes on:
  \<open>Cartographic.fromCartesian\<close>, the surface distance of an \<open>EllipsoidGeodesic\<close> set
  to two end points, and \<open>convertLength\<close> and \<open>convertArea\<close> from metres to a unit.
  They are taken to return a value for every argument, and so is the conversion of the
  viewer's ellipsoid: the positions are not at the centre of the ellipsoid, and the
  lengths converted are not negative.
\<close>

record lib =
  fromCartesian :: "cartesian3 \<Rightarrow> cartographic"
  surfaceDistance :: "cartographic \<Rightarrow> cartographic \<Rightarrow> real"
  convertLength :: "real \<Rightarrow> string \<Rightarrow> real"
  convertArea :: "real \<Rightarrow> string \<Rightarrow> real"

record label_style =
  pixelOffset :: cartesian2
  scale :: real

record label =
  position :: cartesian3
  style :: label_style
  label_text :: string

record locale_options =
  locale_area :: string
  locale_start :: string
  locale_total :: string
  formatLength :: "real \<Rightarrow> real \<Rightarrow> string \<Rightarrow> string"
  formatArea :: "real \<Rightarrow> real \<Rightarrow> string \<Rightarrow> string"

text \<open>
  The drawer and the mouse tooltip are objects of other packages. What the module does
  to them is the sequence of calls it makes, so each is modelled by the list of calls
  made on it so far: it is unchanged exactly when no call was made. Every call on the
  drawer and on the tooltip is taken to return.
\<close>

text \<open>
  The option object of \<open>drawer.start\<close>. \<open>onPointsChange\<close> is \<open>_updateLabelFunc\<close>
  bound to the session, which is the method of the session's class; \<open>onEnd\<close> is the
  callback of the options, kept as a name.
\<close>

type_synonym graphics_style = "(string \<times> string) list"

record graphics_options =
  gstyle :: graphics_style
  clampToGround :: "bool option"

record start_option =
  dtype :: string
  onPointsChange :: kind
  dynamicOptions :: graphics_options
  finalOptions :: graphics_options
  onEndCallback :: "nat option"

datatype drawer_call = DrawerStart start_option | DrawerReset

datatype tooltip_call = TooltipHide | TooltipDestroy

record measure =
  kind :: kind
  viewer :: viewer
  status :: status
  labels :: "label list"
  labelStyle :: label_style
  units :: string
  locale_opts :: locale_options
  mouseTooltip :: "tooltip_call list"
  drawer :: "drawer_call list"
  onEnd :: "nat option"
  splitNum :: nat
  labelsInScene :: bool

record measure_options =
  opt_labelStyle :: label_style
  opt_units :: "string option"
  opt_onEnd :: "nat option"
  opt_locale :: locale_options
  opt_splitNum :: "nat option"

text \<open>
  A method of the session that throws leaves the session as it is at the throw: its
  outcome is \<open>Inl\<close> of the exception and that session, or \<open>Inr\<close> of the session it
  returns with.
\<close>

type_synonym outcome = "(error \<times> measure) + measure"

section \<open>Measure: the session and its life cycle\<close>

text \<open>
  Modelled from the spec: the label collection is Cesium's \<open>LabelCollection\<close>, which is
  not in the sources. The model keeps the labels it holds, and \<open>labelsInScene\<close> says
  whether the collection is among the primitives of the scene, where the constructor
  puts it. A destroyed session has freed its resources (section 7 of the specification):
  \<open>scene.primitives.remove\<close>, which \<open>destroy()\<close> calls, destroys the collection it
  removes, and a viewer that is destroyed has destroyed its scene and the primitives of
  the scene. A method called on a destroyed collection throws a DeveloperError. So the
  collection is alive while it is in the scene of a viewer that is not destroyed.
\<close>

definition labelsAlive :: "measure \<Rightarrow> bool" where
  "labelsAlive m = (labelsInScene m \<and> \<not> isDestroyed (viewer m))"

text \<open>
  The constructor. \<open>labelStyle\<close> and \<open>locale\<close> are taken after the defaults have been
  merged in; \<open>splitNum\<close> is read by the two surface classes only, with the default 10
  for the area and 100 for the distance.
\<close>

definition Measure_new :: "kind \<Rightarrow> viewer option \<Rightarrow> measure_options \<Rightarrow> measure result" where
  "Measure_new k vo options =
     (case vo of
        None \<Rightarrow> Inl (Error ''undefined viewer'')
      | Some v \<Rightarrow>
          Inr \<lparr> kind = k, viewer = v, status = INIT, labels = [],
                labelStyle = opt_labelStyle options,
                units = (case opt_units options of None \<Rightarrow> ''kilometers'' | Some u \<Rightarrow> u),
                locale_opts = opt_locale options,
                mouseTooltip = [TooltipHide],
                drawer = [],
                onEnd = opt_onEnd options,
                splitNum = (case opt_splitNum options of
                              None \<Rightarrow> (if k = AreaSurfaceK then 10 else 100)
                            | Some n \<Rightarrow> n),
                labelsInScene = True \<rparr>)"

definition destroyed :: "measure \<Rightarrow> bool" where
  "destroyed m = (status m = DESTROY)"

definition Measure__start :: "measure \<Rightarrow> string \<Rightarrow> graphics_options \<Rightarrow> outcome" where
  "Measure__start m type options =
     (if status m \<noteq> INIT then Inr m
      else Inr (m\<lparr> drawer := drawer m @
                        [DrawerStart \<lparr> dtype = type, onPointsChange = kind m,
                                       dynamicOptions = options, finalOptions = options,
                                       onEndCallback = onEnd m \<rparr>],
                    status := WORKING \<rparr>))"

text \<open>
  \<open>end()\<close>: the drawer is reset, then \<open>this._labels.removeAll()\<close> is called, which
  throws on a destroyed collection, before the status is set.
\<close>

definition Measure_end :: "measure \<Rightarrow> outcome" where
  "Measure_end m =
     (let m1 = m\<lparr> drawer := drawer m @ [DrawerReset] \<rparr>
      in if labelsAlive m1
         then Inr (m1\<lparr> labels := [], status := INIT \<rparr>)
         else Inl (DeveloperError ''This object was destroyed, i.e., destroy() was called.'', m1))"


definition AreaMeasure_start :: "measure \<Rightarrow> graphics_style \<Rightarrow> outcome" where
  "AreaMeasure_start m st =
     (case Measure_end m of
        Inl thrown \<Rightarrow> Inl thrown
      | Inr m1 \<Rightarrow> Measure__start m1 ''POLYGON'' \<lparr> gstyle = st, clampToGround = None \<rparr>)"

definition DistanceMeasure_start :: "measure \<Rightarrow> graphics_style \<Rightarrow> outcome" where
  "DistanceMeasure_start m st =
     Measure__start m ''POLYLINE'' \<lparr> gstyle = st, clampToGround = Some False \<rparr>"

definition DistanceSurfaceMeasure_start :: "measure \<Rightarrow> graphics_style \<Rightarrow> outcome" where
  "DistanceSurfaceMeasure_start m st =
     Measure__start m ''POLYLINE'' \<lparr> gstyle = st, clampToGround = Some True \<rparr>"

text \<open>
  \<open>start()\<close> as a caller reaches it: the method of the object's class. The base class
  has an empty \<open>start\<close>; \<open>AreaSurfaceMeasure\<close> inherits the one of \<open>AreaMeasure\<close>.
\<close>

definition start_method :: "measure \<Rightarrow> graphics_style \<Rightarrow> outcome" where
  "start_method m st =
     (case kind m of
        MeasureK \<Rightarrow> Inr m
      | AreaK \<Rightarrow> AreaMeasure_start m st
      | AreaSurfaceK \<Rightarrow> AreaMeasure_start m st
      | DistanceK \<Rightarrow> DistanceMeasure_start m st
      | DistanceSurfaceK \<Rightarrow> DistanceSurfaceMeasure_start m st)"

section \<open>Numbers\<close>

text \<open>
  \<open>+v.toFixed(2)\<close>: the number with two decimals nearest to \<open>v\<close>, the larger in
  magnitude of two nearest ones. \<open>toFixed\<close> drops the sign, picks the integer \<open>n\<close>
  with \<open>n / 100\<close> nearest (the larger of two), and puts the sign back.
\<close>

definition toFixed2 :: "real \<Rightarrow> real" where
  "toFixed2 v =
     (if v < 0 then - (real_of_int \<lfloor>(- v) * 100 + 1 / 2\<rfloor> / 100)
      else real_of_int \<lfloor>v * 100 + 1 / 2\<rfloor> / 100)"

text \<open>Cesium's \<open>Cartesian3.distance\<close>: the length of the difference of two points.\<close>

definition Cartesian3_distance :: "cartesian3 \<Rightarrow> cartesian3 \<Rightarrow> real" where
  "Cartesian3_distance l r =
     sqrt ((x3 l - x3 r)\<^sup>2 + (y3 l - y3 r)\<^sup>2 + (z3 l - z3 r)\<^sup>2)"

definition pickCartesian3 :: "viewer \<Rightarrow> cartesian2 \<Rightarrow> cartesian3 option" where
  "pickCartesian3 v p = pickPosition v p"

definition mean :: "real list \<Rightarrow> real" where
  "mean array = fold (\<lambda>currentValue accumulator. accumulator + currentValue) array 0
                 / real (length array)"

section \<open>DistanceMeasure\<close>

definition DistanceMeasure_getDistance :: "cartesian3 \<Rightarrow> cartesian3 \<Rightarrow> real" where
  "DistanceMeasure_getDistance s e = Cartesian3_distance s e"

definition getCart3AxisDistance :: "cartesian3 \<Rightarrow> cartesian3 \<Rightarrow> cartesian3" where
  "getCart3AxisDistance s e = Cartesian3 (x3 s - x3 e) (y3 s - y3 e) (z3 s - z3 e)"

definition getCart3Height :: "lib \<Rightarrow> cartesian3 \<Rightarrow> cartesian3 \<Rightarrow> real" where
  "getCart3Height L s e = \<bar>height (fromCartesian L s) - height (fromCartesian L e)\<bar>"

text \<open>The conversion of one axis delta in \<open>_updateLabelTexts\<close>: converted without its
  sign, rounded, and given its sign back.\<close>

definition unitedAxis :: "lib \<Rightarrow> measure \<Rightarrow> real \<Rightarrow> real" where
  "unitedAxis L m v =
     (let isNegative = v < 0;
          converted = toFixed2 (convertLength L \<bar>v\<bar> (units m))
      in if isNegative then - converted else converted)"

text \<open>The text of label \<open>i > 0\<close> of \<open>num\<close> labels, from the values the loop has
  computed.\<close>

definition distanceLabelText ::
  "measure \<Rightarrow> nat \<Rightarrow> nat \<Rightarrow> real \<Rightarrow> real \<Rightarrow> real \<Rightarrow> real \<Rightarrow> real \<Rightarrow> real \<Rightarrow> string" where
  "distanceLabelText m num i distance unitedDistance h unitedZ newDis unitedNewDis =
     (if i = num - 1 then locale_total (locale_opts m) @ '': '' else ''D: '') @
     formatLength (locale_opts m) distance unitedDistance (units m) @
     [CHR 0x0A] @ ''(Z: '' @ formatLength (locale_opts m) h unitedZ (units m) @ '')'' @
     (if i > 1
      then [CHR 0x0A] @ ''(+'' @ formatLength (locale_opts m) newDis unitedNewDis (units m) @ '')''
      else [])"

text \<open>
  The loop of \<open>_updateLabelTexts\<close>, from index \<open>i\<close>, with the running \<open>distance\<close>, the
  three running axis totals and the labels. \<open>gd\<close> is the \<open>getDistance\<close> of the object's
  class. \<open>labels.get(i)\<close> is undefined past the end of the collection, and setting the
  text of an undefined label throws a TypeError. This is the method of the built module
  (part_000); the TypeScript source (part_001) differs in one argument of the text, where
  it passes \<open>Math.abs(newAxisDis.z)\<close> for \<open>getCart3Height\<close>.
\<close>

function updateLabelTexts_loop ::
  "(cartesian3 \<Rightarrow> cartesian3 \<Rightarrow> real result) \<Rightarrow> lib \<Rightarrow> measure \<Rightarrow> cartesian3 list \<Rightarrow> nat \<Rightarrow>
   real \<Rightarrow> real \<times> real \<times> real \<Rightarrow> label list \<Rightarrow> (real \<times> (real \<times> real \<times> real) \<times> label list) result" where
  "updateLabelTexts_loop gd L m positions i distance unitedAxisDis ls =
     (if i < length positions then
        (if i = 0 then
           (if i < length ls
            then updateLabelTexts_loop gd L m positions (i + 1) distance unitedAxisDis
                   (ls[i := (ls ! i)\<lparr> label_text := locale_start (locale_opts m) \<rparr>])
            else Inl (TypeError ''Cannot set properties of undefined''))
         else
           (case gd (positions ! (i - 1)) (positions ! i) of
              Inl e \<Rightarrow> Inl e
            | Inr d \<Rightarrow>
                (let newDis = toFixed2 d;
                     unitedNewDis = toFixed2 (convertLength L newDis (units m));
                     newAxisDis = getCart3AxisDistance (positions ! (i - 1)) (positions ! i);
                     h = getCart3Height L (positions ! (i - 1)) (positions ! i);
                     distance' = toFixed2 (distance + newDis);
                     unitedDistance = toFixed2 (convertLength L distance' (units m));
                     unitedAxisDis' =
                       (case unitedAxisDis of (a0, a1, a2) \<Rightarrow>
                          (a0 + unitedAxis L m (x3 newAxisDis),
                           a1 + unitedAxis L m (y3 newAxisDis),
                           a2 + unitedAxis L m (z3 newAxisDis)))
                 in if i < length ls
                    then updateLabelTexts_loop gd L m positions (i + 1) distance' unitedAxisDis'
                           (ls[i := (ls ! i)\<lparr> label_text :=
                              distanceLabelText m (length positions) i distance' unitedDistance h
                                (snd (snd unitedAxisDis')) newDis unitedNewDis \<rparr>])
                    else Inl (TypeError ''Cannot set properties of undefined''))))
      else Inr (distance, unitedAxisDis, ls))"
  by pat_completeness auto
termination
  by (relation "measure (\<lambda>(gd, L, m, positions, i, distance, ax, ls). length positions - i)") auto

declare updateLabelTexts_loop.simps [simp del]

definition DistanceMeasure_updateLabelTexts ::
  "(cartesian3 \<Rightarrow> cartesian3 \<Rightarrow> real result) \<Rightarrow> lib \<Rightarrow> measure \<Rightarrow> cartesian3 list \<Rightarrow> measure result" where
  "DistanceMeasure_updateLabelTexts gd L m positions =
     (case updateLabelTexts_loop gd L m positions 0 0 (0, 0, 0) (labels m) of
        Inl e \<Rightarrow> Inl e
      | Inr (distance, unitedAxisDis, ls) \<Rightarrow> Inr (m\<lparr> labels := ls \<rparr>))"

text \<open>\<open>_updateLabelFunc\<close>: one new label at each position, then the texts. The
  drawer calls it while it draws, on a label collection that is alive.\<close>

definition DistanceMeasure_updateLabelFunc ::
  "(cartesian3 \<Rightarrow> cartesian3 \<Rightarrow> real result) \<Rightarrow> lib \<Rightarrow> measure \<Rightarrow> cartesian3 list \<Rightarrow> measure result" where
  "DistanceMeasure_updateLabelFunc gd L m positions =
     DistanceMeasure_updateLabelTexts gd L
       (m\<lparr> labels := map (\<lambda>p. \<lparr> position = p, style = labelStyle m, label_text = [] \<rparr>) positions \<rparr>)
       positions"

text \<open>The planar engine: \<open>getDistance\<close> of \<open>DistanceMeasure\<close> never throws.\<close>

definition planar :: "cartesian3 \<Rightarrow> cartesian3 \<Rightarrow> real result" where
  "planar s e = Inr (DistanceMeasure_getDistance s e)"

section \<open>DistanceSurfaceMeasure\<close>

text \<open>
  A quotient \<open>a / 0\<close> is \<open>0\<close> here and NaN or an infinity in JavaScript: a statement
  below that rests on a quotient says that its divisor is not \<open>0\<close>.
\<close>

definition findWindowPositionByPixelInterval ::
  "cartesian2 \<Rightarrow> cartesian2 \<Rightarrow> real \<Rightarrow> cartesian2" where
  "findWindowPositionByPixelInterval startPosition endPosition interval =
     (let len = sqrt ((x2 endPosition - x2 startPosition)\<^sup>2 +
                      (y2 endPosition - y2 startPosition)\<^sup>2)
      in if len < interval then Cartesian2 0 0
         else Cartesian2 (interval / len * (x2 endPosition - x2 startPosition) + x2 startPosition)
                         (interval / len * (y2 endPosition - y2 startPosition) + y2 startPosition))"

definition calculateDetailSurfaceLength ::
  "lib \<Rightarrow> viewer \<Rightarrow> cartesian2 \<Rightarrow> cartesian2 \<Rightarrow> real" where
  "calculateDetailSurfaceLength L v startPoint endPoint =
     (case (pickCartesian3 v startPoint, pickCartesian3 v endPoint) of
        (Some surfaceStartCartesian3, Some surfaceEndCartesian3) \<Rightarrow>
          (let cartographicStart = fromCartesian L surfaceStartCartesian3;
               cartographicEnd = fromCartesian L surfaceEndCartesian3;
               innerS = surfaceDistance L cartographicStart cartographicEnd
           in sqrt (innerS\<^sup>2 + (height cartographicStart - height cartographicEnd)\<^sup>2))
      | _ \<Rightarrow> 0)"

text \<open>
  The interval of \<open>_calculateSurfaceDistance\<close>. The source writes
  \<open>Math.pow(endPoint.x - startPoint.x, 2) + (endPoint.y - startPoint.y, 2)\<close>: the second
  summand is a comma expression, whose value is \<open>2\<close>.
\<close>

definition sampleInterval :: "nat \<Rightarrow> cartesian2 \<Rightarrow> cartesian2 \<Rightarrow> real" where
  "sampleInterval n startPoint endPoint =
     sqrt ((x2 endPoint - x2 startPoint)\<^sup>2 + 2) / real n"

text \<open>
  \<open>sampleWindowPoints\<close> when the first loop and the push after it are done.
  \<open>splitNum\<close> is a natural number \<open>n\<close>: the loop runs for \<open>ii = 1, \<dots>, n\<close>, and
  for \<open>n = 0\<close> it does not run and the interval is not used.
\<close>

definition sampleWindowPoints :: "nat \<Rightarrow> cartesian2 \<Rightarrow> cartesian2 \<Rightarrow> cartesian2 list" where
  "sampleWindowPoints n startPoint endPoint =
     [startPoint] @
     map (\<lambda>ii. findWindowPositionByPixelInterval startPoint endPoint
                 (real ii * sampleInterval n startPoint endPoint)) [1..<n + 1] @
     [endPoint]"

definition calculateSurfaceDistance ::
  "lib \<Rightarrow> viewer \<Rightarrow> nat \<Rightarrow> cartesian2 \<Rightarrow> cartesian2 \<Rightarrow> real" where
  "calculateSurfaceDistance L v n startPoint endPoint =
     (let samples = sampleWindowPoints n startPoint endPoint
      in fold (\<lambda>jj resultDistance.
                 resultDistance + calculateDetailSurfaceLength L v (samples ! (jj + 1)) (samples ! jj))
           [0..<length samples - 1] 0)"

text \<open>\<open>getDistance\<close> of the surface class. A position without a window position gives
  an undefined end point, whose \<open>x\<close> cannot be read.\<close>

definition DistanceSurfaceMeasure_getDistance ::
  "lib \<Rightarrow> measure \<Rightarrow> cartesian3 \<Rightarrow> cartesian3 \<Rightarrow> real result" where
  "DistanceSurfaceMeasure_getDistance L m pos1 pos2 =
     (case (worldToWindowCoordinates (viewer m) pos1, worldToWindowCoordinates (viewer m) pos2) of
        (Some s, Some e) \<Rightarrow> Inr (calculateSurfaceDistance L (viewer m) (splitNum m) s e)
      | _ \<Rightarrow> Inl (TypeError ''Cannot read properties of undefined''))"

section \<open>AreaMeasure\<close>

text \<open>Cesium's \<open>Math.toDegrees\<close>.\<close>

definition toDegrees :: "real \<Rightarrow> real" where
  "toDegrees radians = radians * (180 / pi)"

definition cartesian2Lonlat :: "measure \<Rightarrow> cartesian3 list \<Rightarrow> (real \<times> real) list" where
  "cartesian2Lonlat m positions =
     map (\<lambda>pos. let c = cartesianToCartographic (viewer m) pos
                in (toDegrees (longitude c), toDegrees (latitude c))) positions"

text \<open>
  Modelled from the spec: the polygon construction from a ring of 2D points (section 6)
  and the area of the polygon on the sphere, a signed polygon area formula taken in
  absolute value (section 4.4). They are \<open>polygon\<close> of the package \<open>@turf/helpers\<close> and
  \<open>area\<close> of the package \<open>@turf/area\<close>, which are not in the sources. \<open>polygon\<close>
  throws for a ring of fewer than four positions and for a ring whose last position
  differs from its first; \<open>area\<close> is the absolute value of the ring area of the outer
  ring, less those of the holes, and the ring area is the sum over the vertices of that
  library, on a sphere of radius 6371008.8.
\<close>

fun turf_polygon_check :: "(real \<times> real) list list \<Rightarrow> error option" where
  "turf_polygon_check [] = None"
| "turf_polygon_check (ring # rings) =
     (if length ring < 4
      then Some (Error ''Each LinearRing of a Polygon must have 4 or more Positions.'')
      else if last ring \<noteq> hd ring
      then Some (Error ''First and last Position are not equivalent.'')
      else turf_polygon_check rings)"

definition turf_polygon :: "(real \<times> real) list list \<Rightarrow> (real \<times> real) list list result" where
  "turf_polygon coordinates =
     (case turf_polygon_check coordinates of Some e \<Rightarrow> Inl e | None \<Rightarrow> Inr coordinates)"

definition FACTOR :: real where
  "FACTOR = (63710088 / 10 * (63710088 / 10)) / 2"

definition PI_OVER_180 :: real where
  "PI_OVER_180 = pi / 180"

function ringArea_loop :: "(real \<times> real) list \<Rightarrow> nat \<Rightarrow> nat \<Rightarrow> real \<Rightarrow> real" where
  "ringArea_loop coords coordsLength i tot =
     (if i < coordsLength then
        (let lower = coords ! i;
             middle = coords ! (if i + 1 = coordsLength then 0 else i + 1);
             upper = coords ! (if i + 2 \<ge> coordsLength then (i + 2) mod coordsLength else i + 2);
             lowerX = fst lower * PI_OVER_180;
             middleY = snd middle * PI_OVER_180;
             upperX = fst upper * PI_OVER_180
         in ringArea_loop coords coordsLength (i + 1) (tot + (upperX - lowerX) * sin middleY))
      else tot)"
  by pat_completeness auto
termination
  by (relation "measure (\<lambda>(coords, coordsLength, i, tot). coordsLength - i)") auto

declare ringArea_loop.simps [simp del]

definition ringArea :: "(real \<times> real) list \<Rightarrow> real" where
  "ringArea coords =
     (let coordsLength = length coords - 1
      in if coordsLength \<le> 2 then 0 else ringArea_loop coords coordsLength 0 0 * FACTOR)"

definition turf_area :: "(real \<times> real) list list \<Rightarrow> real" where
  "turf_area coords =
     (case coords of
        [] \<Rightarrow> 0
      | outer # holes \<Rightarrow> fold (\<lambda>hole tot. tot - \<bar>ringArea hole\<bar>) holes \<bar>ringArea outer\<bar>)"

text \<open>
  \<open>getArea\<close> of \<open>AreaMeasure\<close>. The ring is \<open>[...lonlats, lonlats[0]]\<close>. For an empty
  list \<open>lonlats[0]\<close> is undefined and the ring \<open>[undefined]\<close> has one entry, so that
  \<open>polygon\<close> throws as for any ring of fewer than four entries. \<open>AreaMeasure_ring\<close>
  is the ring of a list of positions that is not empty.
\<close>

definition AreaMeasure_ring :: "measure \<Rightarrow> cartesian3 list \<Rightarrow> (real \<times> real) list" where
  "AreaMeasure_ring m positions =
     (let lonlats = cartesian2Lonlat m positions in lonlats @ [lonlats ! 0])"

definition AreaMeasure_getArea :: "measure \<Rightarrow> cartesian3 list \<Rightarrow> real result" where
  "AreaMeasure_getArea m positions =
     (if positions = []
      then Inl (Error ''Each LinearRing of a Polygon must have 4 or more Positions.'')
      else (case turf_polygon [AreaMeasure_ring m positions] of
              Inl e \<Rightarrow> Inl e
            | Inr pg \<Rightarrow> Inr (turf_area pg)))"

definition AreaMeasure_updateLabelTexts :: "lib \<Rightarrow> measure \<Rightarrow> cartesian3 list \<Rightarrow> measure result" where
  "AreaMeasure_updateLabelTexts L m positions =
     (case AreaMeasure_getArea m positions of
        Inl e \<Rightarrow> Inl e
      | Inr a \<Rightarrow>
          (let area2 = toFixed2 a;
               unitedArea = toFixed2 (convertArea L area2 (units m))
           in case labels m of
                [] \<Rightarrow> Inl (TypeError ''Cannot set properties of undefined'')
              | l # ls \<Rightarrow>
                  Inr (m\<lparr> labels :=
                         l\<lparr> label_text := locale_area (locale_opts m) @ '': '' @
                               formatArea (locale_opts m) area2 unitedArea (units m) \<rparr> # ls \<rparr>)))"

definition AreaMeasure_updateLabelFunc :: "lib \<Rightarrow> measure \<Rightarrow> cartesian3 list \<Rightarrow> measure result" where
  "AreaMeasure_updateLabelFunc L m positions =
     (let m1 = m\<lparr> labels := [] \<rparr>
      in if length positions < 3 then Inr m1
         else
           (let pos = Cartesian3 (mean (map x3 positions)) (mean (map y3 positions))
                        (mean (map z3 positions));
                m2 = m1\<lparr> labels := labels m1 @
                        [\<lparr> position = pos,
                           style = (labelStyle m)\<lparr> pixelOffset := Cartesian2 (- 100) 0 \<rparr>,
                           label_text = [] \<rparr>] \<rparr>
            in AreaMeasure_updateLabelTexts L m2 positions))"

section \<open>Scenes and sessions for the examples\<close>

text \<open>A scene for the examples: a flat terrain seen by a camera that maps a point
  \<open>(a, b, c)\<close> to the window position \<open>(a, b)\<close>, with every pick hitting the plane
  \<open>c = 0\<close>.\<close>

definition flat_viewer :: viewer where
  "flat_viewer =
     \<lparr> pickPosition = (\<lambda>p. Some (Cartesian3 (x2 p) (y2 p) 0)),
       cartesianToCartographic = (\<lambda>c. \<lparr> longitude = x3 c, latitude = y3 c, height = z3 c \<rparr>),
       worldToWindowCoordinates = (\<lambda>c. Some (Cartesian2 (x3 c) (y3 c))),
       isDestroyed = False \<rparr>"

text \<open>Library functions for the examples: the cartographic coordinates of a point are
  its own, the surface distance is the distance in the plane, and the unit is the
  kilometre.\<close>

definition flat_lib :: lib where
  "flat_lib =
     \<lparr> fromCartesian = (\<lambda>c. \<lparr> longitude = x3 c, latitude = y3 c, height = z3 c \<rparr>),
       surfaceDistance = (\<lambda>a b. sqrt ((longitude a - longitude b)\<^sup>2 + (latitude a - latitude b)\<^sup>2)),
       convertLength = (\<lambda>v u. v / 1000),
       convertArea = (\<lambda>v u. v / 1000000) \<rparr>"

definition plain_options :: measure_options where
  "plain_options =
     \<lparr> opt_labelStyle = \<lparr> pixelOffset = Cartesian2 4 0, scale = 1 \<rparr>,
       opt_units = None, opt_onEnd = None,
       opt_locale = \<lparr> locale_area = ''Area'', locale_start = ''start'', locale_total = ''Total'',
                      formatLength = (\<lambda>l u unit. unit), formatArea = (\<lambda>a u unit. unit) \<rparr>,
       opt_splitNum = None \<rparr>"

definition fresh :: "kind \<Rightarrow> measure" where
  "fresh k =
     \<lparr> kind = k, viewer = flat_viewer, status = INIT, labels = [],
       labelStyle = opt_labelStyle plain_options, units = ''kilometers'',
       locale_opts = opt_locale plain_options, mouseTooltip = [TooltipHide], drawer = [],
       onEnd = None, splitNum = (if k = AreaSurfaceK then 10 else 100),
       labelsInScene = True \<rparr>"

text \<open>The sessions of the examples: an area session and a distance session, each after
  \<open>start()\<close> and after \<open>destroy()\<close>.\<close>

definition area_working :: measure where
  "area_working =
     (fresh AreaK)\<lparr> status := WORKING,
       drawer := [DrawerReset,
                  DrawerStart \<lparr> dtype = ''POLYGON'', onPointsChange = AreaK,
                    dynamicOptions = \<lparr> gstyle = [], clampToGround = None \<rparr>,
                    finalOptions = \<lparr> gstyle = [], clampToGround = None \<rparr>,
                    onEndCallback = None \<rparr>] \<rparr>"

definition distance_working :: measure where
  "distance_working =
     (fresh DistanceK)\<lparr> status := WORKING,
       drawer := [DrawerStart \<lparr> dtype = ''POLYLINE'', onPointsChange = DistanceK,
                    dynamicOptions = \<lparr> gstyle = [], clampToGround = Some False \<rparr>,
                    finalOptions = \<lparr> gstyle = [], clampToGround = Some False \<rparr>,
                    onEndCallback = None \<rparr>] \<rparr>"

definition destroyed_session :: "kind \<Rightarrow> measure" where
  "destroyed_session k =
     (fresh k)\<lparr> status := DESTROY, drawer := [DrawerReset],
       mouseTooltip := [TooltipHide, TooltipDestroy], labelsInScene := False \<rparr>"

text \<open>
  A locale for the examples, as a caller can give one in the options: its \<open>formatLength\<close>
  is \<open>(length) => length.toFixed(2) + "m"\<close>. \<open>toFixedString2\<close> is the string of
  \<open>toFixed(2)\<close> for a number below \<open>10^21\<close>: the sign, the digits of the whole part,
  the point and the two decimals.
\<close>

definition digitChar :: "nat \<Rightarrow> char" where
  "digitChar d = ''0123456789'' ! d"

function showNat :: "nat \<Rightarrow> string" where
  "showNat n = (if n < 10 then [digitChar n] else showNat (n div 10) @ [digitChar (n mod 10)])"
  by pat_completeness auto
termination
  by (relation "measure id") auto

declare showNat.simps [simp del]

definition toFixedString2 :: "real \<Rightarrow> string" where
  "toFixedString2 v =
     (let n = nat \<lfloor>\<bar>v\<bar> * 100 + 1 / 2\<rfloor>
      in (if v < 0 then ''-'' else []) @
         showNat (n div 100) @ ''.'' @ [digitChar (n mod 100 div 10), digitChar (n mod 10)])"

definition metre_locale :: locale_options where
  "metre_locale =
     \<lparr> locale_area = ''Area'', locale_start = ''start'', locale_total = ''Total'',
       formatLength = (\<lambda>l u unit. toFixedString2 l @ ''m''),
       formatArea = (\<lambda>a u unit. toFixedString2 a @ ''m2'') \<rparr>"

definition metre_session :: measure where
  "metre_session = (fresh DistanceK)\<lparr> locale_opts := metre_locale \<rparr>"

section \<open>The planar distance, as specified\<close>

text \<open>A number with at most two decimals: a whole number of hundredths.\<close>

definition twoDecimals :: "real \<Rightarrow> bool" where
  "twoDecimals v = (\<exists>k::int. v = real_of_int k / 100)"

text \<open>
  The words of the specification for the planar distance: the increment of segment \<open>j\<close>,
  from vertex \<open>j - 1\<close> to vertex \<open>j\<close>, is its distance rounded to two decimals; the Z
  increment is the converted and rounded delta of the third axis; \<open>publishedText\<close> is
  the text of label \<open>k\<close> for a running total and a running Z total.
\<close>

definition roundedIncrement :: "cartesian3 list \<Rightarrow> nat \<Rightarrow> real" where
  "roundedIncrement ps j = toFixed2 (DistanceMeasure_getDistance (ps ! (j - 1)) (ps ! j))"

definition unitedZ :: "lib \<Rightarrow> measure \<Rightarrow> cartesian3 list \<Rightarrow> nat \<Rightarrow> real" where
  "unitedZ L m ps j = unitedAxis L m (z3 (getCart3AxisDistance (ps ! (j - 1)) (ps ! j)))"

definition publishedText ::
  "lib \<Rightarrow> measure \<Rightarrow> cartesian3 list \<Rightarrow> nat \<Rightarrow> real \<Rightarrow> real \<Rightarrow> string" where
  "publishedText L m ps k tot zTot =
     distanceLabelText m (length ps) k tot (toFixed2 (convertLength L tot (units m)))
       (getCart3Height L (ps ! (k - 1)) (ps ! k)) zTot
       (roundedIncrement ps k) (toFixed2 (convertLength L (roundedIncrement ps k) (units m)))"

text \<open>Three points on a line, 1.004 apart.\<close>

definition three_points :: "cartesian3 list" where
  "three_points = [Cartesian3 0 0 0, Cartesian3 (251 / 250) 0 0, Cartesian3 (251 / 125) 0 0]"

section \<open>The surface distance, as specified\<close>

text \<open>
  The words of the specification for the surface distance: the length of a segment in
  screen space, and a point that lies on the segment.
\<close>

definition segmentLength :: "cartesian2 \<Rightarrow> cartesian2 \<Rightarrow> real" where
  "segmentLength s e = sqrt ((x2 e - x2 s)\<^sup>2 + (y2 e - y2 s)\<^sup>2)"

definition onSegment :: "cartesian2 \<Rightarrow> cartesian2 \<Rightarrow> cartesian2 \<Rightarrow> bool" where
  "onSegment s e p =
     (\<exists>t. 0 \<le> t \<and> t \<le> 1 \<and>
          p = Cartesian2 (x2 s + t * (x2 e - x2 s)) (y2 s + t * (y2 e - y2 s)))"

text \<open>Two more scenes for the examples: one where no pick hits anything, and one where
  every pick hits the same point.\<close>

definition blind_viewer :: viewer where
  "blind_viewer = flat_viewer\<lparr> pickPosition := (\<lambda>p. None) \<rparr>"

definition point_viewer :: viewer where
  "point_viewer = flat_viewer\<lparr> pickPosition := (\<lambda>p. Some (Cartesian3 0 0 0)) \<rparr>"

section \<open>The ring area, term by term\<close>

text \<open>
  The summand of the ring area for vertex \<open>i\<close> of \<open>n\<close>, from the longitudes \<open>a\<close> in
  radians and the sines \<open>b\<close> of the latitudes, and these two for a list of
  coordinates.
\<close>

definition vertexTerm :: "(nat \<Rightarrow> real) \<Rightarrow> (nat \<Rightarrow> real) \<Rightarrow> nat \<Rightarrow> nat \<Rightarrow> real" where
  "vertexTerm a b n i = (a ((i + 2) mod n) - a i) * b ((i + 1) mod n)"

definition lonRadians :: "(real \<times> real) list \<Rightarrow> nat \<Rightarrow> real" where
  "lonRadians coords j = fst (coords ! j) * PI_OVER_180"

definition sinLat :: "(real \<times> real) list \<Rightarrow> nat \<Rightarrow> real" where
  "sinLat coords j = sin (snd (coords ! j) * PI_OVER_180)"

text \<open>Three positions for the examples.\<close>

definition triangle :: "cartesian3 list" where
  "triangle = [Cartesian3 0 0 0, Cartesian3 1 0 0, Cartesian3 0 1 0]"

section \<open>Life cycle properties\<close>

lemma Measure_new_fresh: "Measure_new k (Some flat_viewer) plain_options = Inr (fresh k)"
  by (simp add: Measure_new_def fresh_def plain_options_def)

lemma labelsAlive_fresh: "labelsAlive (fresh k)"
  by (simp add: labelsAlive_def fresh_def flat_viewer_def)

lemma labelsAlive_area_working: "labelsAlive area_working"
  by (simp add: labelsAlive_def area_working_def fresh_def flat_viewer_def)


lemma Measure_end_alive:
  "labelsAlive m \<Longrightarrow>
   Measure_end m = Inr (m\<lparr> drawer := drawer m @ [DrawerReset], labels := [], status := INIT \<rparr>)"
  by (simp add: Measure_end_def labelsAlive_def Let_def)







lemma start_fresh_distance: "start_method (fresh DistanceK) [] = Inr distance_working"
  by (simp add: start_method_def DistanceMeasure_start_def Measure__start_def
      fresh_def distance_working_def)

lemma Measure__start_not_INIT: "status m \<noteq> INIT \<Longrightarrow> Measure__start m ty opts = Inr m"
  by (simp add: Measure__start_def)

lemma AreaMeasure_start_restarts:
  "labelsAlive m \<Longrightarrow>
   AreaMeasure_start m st =
     Inr (m\<lparr> drawer := drawer m @
                 [DrawerReset,
                  DrawerStart \<lparr> dtype = ''POLYGON'', onPointsChange = kind m,
                    dynamicOptions = \<lparr> gstyle = st, clampToGround = None \<rparr>,
                    finalOptions = \<lparr> gstyle = st, clampToGround = None \<rparr>,
                    onEndCallback = onEnd m \<rparr>],
             labels := [], status := WORKING \<rparr>)"
  by (simp add: AreaMeasure_start_def Measure_end_alive Measure__start_def)

lemma start_method_area: "kind m = AreaK \<Longrightarrow> start_method m st = AreaMeasure_start m st"
  by (simp add: start_method_def)

lemma start_fresh_area: "start_method (fresh AreaK) [] = Inr area_working"
proof -
  have "kind (fresh AreaK) = AreaK"
    by (simp add: fresh_def)
  then have "start_method (fresh AreaK) [] = AreaMeasure_start (fresh AreaK) []"
    by (rule start_method_area)
  then show ?thesis
    by (simp only: AreaMeasure_start_restarts [OF labelsAlive_fresh])
       (simp add: fresh_def area_working_def)
qed

text \<open>
  C8, as the claim states it, fails: an area session that is WORKING is not left alone
  by \<open>start()\<close>, which resets the drawer and starts a new polygon.
\<close>

theorem start_not_INIT_area_counterexample:
  "status area_working \<noteq> INIT \<and>
   map_sum id drawer (start_method area_working []) \<noteq> Inr (drawer area_working)"
proof -
  have "kind area_working = AreaK"
    by (simp add: area_working_def fresh_def)
  then have "start_method area_working [] = AreaMeasure_start area_working []"
    by (rule start_method_area)
  then show ?thesis
    by (simp only: AreaMeasure_start_restarts [OF labelsAlive_area_working])
       (simp add: area_working_def fresh_def)
qed

text \<open>
  C8, amended. For a session whose status is not INIT, \<open>_start\<close> returns the session as
  it is, and so does \<open>start()\<close> of every class but \<open>AreaMeasure\<close> and
  \<open>AreaSurfaceMeasure\<close>. \<open>AreaMeasure.start()\<close> calls \<open>end()\<close> first: on a session
  that is WORKING, with its label collection alive, it resets the drawer, removes the
  labels, starts a new polygon and leaves the status WORKING.
\<close>

theorem start_not_INIT:
  assumes "status m \<noteq> INIT"
  shows "Measure__start m ty opts = Inr m \<and>
         (kind m \<noteq> AreaK \<and> kind m \<noteq> AreaSurfaceK \<longrightarrow> start_method m st = Inr m) \<and>
         ((kind m = AreaK \<or> kind m = AreaSurfaceK) \<and> status m = WORKING \<and> labelsAlive m \<longrightarrow>
           (\<exists>m'. start_method m st = Inr m' \<and> status m' = WORKING \<and> labels m' = [] \<and>
                drawer m' = drawer m @
                  [DrawerReset,
                   DrawerStart \<lparr> dtype = ''POLYGON'', onPointsChange = kind m,
                     dynamicOptions = \<lparr> gstyle = st, clampToGround = None \<rparr>,
                     finalOptions = \<lparr> gstyle = st, clampToGround = None \<rparr>,
                     onEndCallback = onEnd m \<rparr>]))"
proof (intro conjI impI)
  show "Measure__start m ty opts = Inr m"
    using assms by (rule Measure__start_not_INIT)
next
  assume "kind m \<noteq> AreaK \<and> kind m \<noteq> AreaSurfaceK"
  then show "start_method m st = Inr m"
    using assms
    by (cases "kind m")
       (simp_all add: start_method_def DistanceMeasure_start_def
          DistanceSurfaceMeasure_start_def Measure__start_not_INIT)
next
  assume a: "(kind m = AreaK \<or> kind m = AreaSurfaceK) \<and> status m = WORKING \<and> labelsAlive m"
  then have "start_method m st = AreaMeasure_start m st"
    by (auto simp add: start_method_def)
  then show "\<exists>m'. start_method m st = Inr m' \<and> status m' = WORKING \<and> labels m' = [] \<and>
                drawer m' = drawer m @
                  [DrawerReset,
                   DrawerStart \<lparr> dtype = ''POLYGON'', onPointsChange = kind m,
                     dynamicOptions = \<lparr> gstyle = st, clampToGround = None \<rparr>,
                     finalOptions = \<lparr> gstyle = st, clampToGround = None \<rparr>,
                     onEndCallback = onEnd m \<rparr>]"
    using a by (simp add: AreaMeasure_start_restarts)
qed

theorem start_not_INIT_witness:
  "status distance_working \<noteq> INIT \<and>
   Measure__start distance_working ''POLYLINE'' \<lparr> gstyle = [], clampToGround = None \<rparr>
     = Inr distance_working \<and>
   start_method distance_working [] = Inr distance_working \<and>
   status area_working = WORKING \<and> labelsAlive area_working \<and>
   (\<exists>m'. start_method area_working [] = Inr m' \<and> status m' = WORKING \<and> labels m' = [] \<and>
         length (drawer m') = length (drawer area_working) + 2)"
proof -
  have d: "status distance_working \<noteq> INIT" and dk: "kind distance_working = DistanceK"
    by (simp_all add: distance_working_def fresh_def)
  have a: "status area_working \<noteq> INIT" and aw: "status area_working = WORKING"
    and ak: "kind area_working = AreaK"
    by (simp_all add: area_working_def fresh_def)
  have "\<exists>m'. start_method area_working [] = Inr m' \<and> status m' = WORKING \<and> labels m' = [] \<and>
         length (drawer m') = length (drawer area_working) + 2"
    using start_not_INIT [OF a, of "''POLYGON''" "\<lparr> gstyle = [], clampToGround = None \<rparr>" "[]"]
      ak aw labelsAlive_area_working
    by auto
  moreover have "Measure__start distance_working ''POLYLINE'' \<lparr> gstyle = [], clampToGround = None \<rparr>
       = Inr distance_working \<and> start_method distance_working [] = Inr distance_working"
    using start_not_INIT [OF d, of "''POLYLINE''" "\<lparr> gstyle = [], clampToGround = None \<rparr>" "[]"] dk
    by simp
  ultimately show ?thesis
    using d aw labelsAlive_area_working by blast
qed

text \<open>
  C1, as the claim states it, fails: on a destroyed distance session \<open>start()\<close> returns
  without raising an error.
\<close>

theorem destroyed_start_counterexample:
  "status (destroyed_session DistanceK) = DESTROY \<and>
   \<not> isl (start_method (destroyed_session DistanceK) []) \<and>
   start_method (destroyed_session DistanceK) [] = Inr (destroyed_session DistanceK)"
  by (simp add: start_method_def DistanceMeasure_start_def Measure__start_def
      destroyed_session_def fresh_def)

text \<open>
  C1, amended. On a session whose status is DESTROY, \<open>start()\<close> of a class other than
  \<open>AreaMeasure\<close> and \<open>AreaSurfaceMeasure\<close> raises no error, the code having no life
  cycle error, and returns the session as it is: status, labels and drawer are
  unchanged.
\<close>

theorem destroyed_start_silent:
  assumes "status m = DESTROY" and "kind m \<noteq> AreaK" and "kind m \<noteq> AreaSurfaceK"
  shows "\<not> isl (start_method m st) \<and> start_method m st = Inr m"
proof -
  have ne: "status m \<noteq> INIT"
    using assms(1) by simp
  have "start_method m st = Inr m"
    using assms(2,3)
    by (cases "kind m")
       (simp_all add: start_method_def DistanceMeasure_start_def
          DistanceSurfaceMeasure_start_def Measure__start_not_INIT [OF ne])
  then show ?thesis by simp
qed

theorem destroyed_start_silent_witness:
  "status (destroyed_session DistanceSurfaceK) = DESTROY \<and>
   kind (destroyed_session DistanceSurfaceK) \<noteq> AreaK \<and>
   kind (destroyed_session DistanceSurfaceK) \<noteq> AreaSurfaceK \<and>
   \<not> isl (start_method (destroyed_session DistanceSurfaceK) []) \<and>
   start_method (destroyed_session DistanceSurfaceK) [] = Inr (destroyed_session DistanceSurfaceK)"
proof -
  have s: "status (destroyed_session DistanceSurfaceK) = DESTROY"
    and k: "kind (destroyed_session DistanceSurfaceK) \<noteq> AreaK"
    and k': "kind (destroyed_session DistanceSurfaceK) \<noteq> AreaSurfaceK"
    by (simp_all add: destroyed_session_def fresh_def)
  show ?thesis
    using s k k' destroyed_start_silent [OF s k k', of "[]"] by simp
qed

section \<open>The planar distance engine\<close>

lemma toFixed2_hundredth: "toFixed2 (real_of_int k / 100) = real_of_int k / 100"
proof (cases "k < 0")
  case True
  have "\<lfloor>real_of_int (- k) + 1 / 2\<rfloor> = - k"
    by linarith
  then show ?thesis using True by (simp add: toFixed2_def)
next
  case False
  have "\<lfloor>real_of_int k + 1 / 2\<rfloor> = k"
    by linarith
  then show ?thesis using False by (simp add: toFixed2_def)
qed

lemma twoDecimals_toFixed2: "twoDecimals (toFixed2 v)"
  unfolding twoDecimals_def toFixed2_def
  by (cases "v < 0") (auto intro: exI [of _ "- \<lfloor>(- v) * 100 + 1 / 2\<rfloor>"])

lemma twoDecimals_add: "twoDecimals a \<Longrightarrow> twoDecimals b \<Longrightarrow> twoDecimals (a + b)"
  unfolding twoDecimals_def
  by (metis add_divide_distrib of_int_add)

lemma toFixed2_twoDecimals: "twoDecimals v \<Longrightarrow> toFixed2 v = v"
proof -
  assume "twoDecimals v"
  then obtain k :: int where "v = real_of_int k / 100"
    unfolding twoDecimals_def by blast
  then show ?thesis by (simp only: toFixed2_hundredth)
qed

lemma loop_keeps:
  "updateLabelTexts_loop gd L m ps i d ax ls = Inr (d', ax', ls') \<Longrightarrow>
   length ls' = length ls \<and> (\<forall>k<i. ls' ! k = ls ! k)"
proof (induction "length ps - i" arbitrary: i d ax ls)
  case 0
  then show ?case
    by (subst (asm) updateLabelTexts_loop.simps) simp
next
  case (Suc n)
  then have i: "i < length ps" and n: "n = length ps - (i + 1)" by simp_all
  show ?case
  proof (cases "i = 0")
    case True
    with Suc.prems i show ?thesis
      using Suc.hyps(1) [OF n]
      apply (subst (asm) updateLabelTexts_loop.simps)
      apply (auto split: if_splits)
      done
  next
    case False
    with Suc.prems i show ?thesis
      using Suc.hyps(1) [OF n]
      apply (subst (asm) updateLabelTexts_loop.simps)
      apply (auto simp add: Let_def split: if_splits sum.splits prod.splits)
      done
  qed
qed

lemma loop_step_positive:
  assumes "0 < i" "i < length ps" "i < length ls" "twoDecimals d"
  shows "updateLabelTexts_loop planar L m ps i d ax ls =
         updateLabelTexts_loop planar L m ps (i + 1) (d + roundedIncrement ps i)
           (fst ax + unitedAxis L m (x3 (getCart3AxisDistance (ps ! (i - 1)) (ps ! i))),
            fst (snd ax) + unitedAxis L m (y3 (getCart3AxisDistance (ps ! (i - 1)) (ps ! i))),
            snd (snd ax) + unitedZ L m ps i)
           (ls[i := (ls ! i)\<lparr> label_text :=
               publishedText L m ps i (d + roundedIncrement ps i) (snd (snd ax) + unitedZ L m ps i) \<rparr>])"
proof -
  have r: "toFixed2 (d + roundedIncrement ps i) = d + roundedIncrement ps i"
    using assms(4)
    by (simp add: toFixed2_twoDecimals twoDecimals_add twoDecimals_toFixed2 roundedIncrement_def)
  show ?thesis
    using assms(1-3) r
    by (subst updateLabelTexts_loop.simps)
       (simp add: planar_def Let_def roundedIncrement_def unitedZ_def publishedText_def
          split: prod.splits)
qed

lemma loop_step_zero:
  assumes "0 < length ps" "0 < length ls"
  shows "updateLabelTexts_loop gd L m ps 0 d ax ls =
         updateLabelTexts_loop gd L m ps 1 d ax
           (ls[0 := (ls ! 0)\<lparr> label_text := locale_start (locale_opts m) \<rparr>])"
  using assms by (subst updateLabelTexts_loop.simps) simp

lemma loop_done:
  "length ps \<le> i \<Longrightarrow> updateLabelTexts_loop gd L m ps i d ax ls = Inr (d, ax, ls)"
  by (subst updateLabelTexts_loop.simps) simp

lemma planar_loop_from:
  assumes "length ps \<le> length ls" "twoDecimals d" "0 < i"
  shows "\<exists>ax' ls'.
           updateLabelTexts_loop planar L m ps i d ax ls =
             Inr (d + (\<Sum>j = i..<length ps. roundedIncrement ps j), ax', ls') \<and>
           length ls' = length ls \<and> (\<forall>k<i. ls' ! k = ls ! k) \<and>
           (\<forall>k. i \<le> k \<and> k < length ps \<longrightarrow>
                label_text (ls' ! k) =
                  publishedText L m ps k (d + (\<Sum>j = i..k. roundedIncrement ps j))
                    (snd (snd ax) + (\<Sum>j = i..k. unitedZ L m ps j)))"
  using assms
proof (induction "length ps - i" arbitrary: i d ax ls)
  case 0
  then show ?case by (cases ax) (auto simp add: loop_done)
next
  case (Suc n)
  then have i: "i < length ps" "i < length ls" and n: "n = length ps - (i + 1)"
    by simp_all
  define d1 where "d1 = d + roundedIncrement ps i"
  define ax1 where "ax1 =
    (fst ax + unitedAxis L m (x3 (getCart3AxisDistance (ps ! (i - 1)) (ps ! i))),
     fst (snd ax) + unitedAxis L m (y3 (getCart3AxisDistance (ps ! (i - 1)) (ps ! i))),
     snd (snd ax) + unitedZ L m ps i)"
  define ls1 where "ls1 = ls[i := (ls ! i)\<lparr> label_text :=
               publishedText L m ps i d1 (snd (snd ax) + unitedZ L m ps i) \<rparr>]"
  have step: "updateLabelTexts_loop planar L m ps i d ax ls =
              updateLabelTexts_loop planar L m ps (i + 1) d1 ax1 ls1"
    unfolding d1_def ax1_def ls1_def
    using Suc.prems i by (intro loop_step_positive) simp_all
  have d1: "twoDecimals d1"
    unfolding d1_def roundedIncrement_def
    using Suc.prems(2) by (simp add: twoDecimals_add twoDecimals_toFixed2)
  have len1: "length ps \<le> length ls1"
    using Suc.prems(1) by (simp add: ls1_def)
  from Suc.hyps(1) [OF n len1 d1, of ax1]
  obtain ax' ls' where
    res: "updateLabelTexts_loop planar L m ps (i + 1) d1 ax1 ls1 =
            Inr (d1 + (\<Sum>j = i + 1..<length ps. roundedIncrement ps j), ax', ls')"
    and len: "length ls' = length ls1"
    and keep: "\<forall>k<i + 1. ls' ! k = ls1 ! k"
    and ltexts: "\<forall>k. i + 1 \<le> k \<and> k < length ps \<longrightarrow>
                label_text (ls' ! k) =
                  publishedText L m ps k (d1 + (\<Sum>j = i + 1..k. roundedIncrement ps j))
                    (snd (snd ax1) + (\<Sum>j = i + 1..k. unitedZ L m ps j))"
    by auto
  have total: "d1 + (\<Sum>j = i + 1..<length ps. roundedIncrement ps j) =
               d + (\<Sum>j = i..<length ps. roundedIncrement ps j)"
    using i(1) by (simp add: d1_def sum.atLeast_Suc_lessThan)
  have "\<forall>k<i. ls' ! k = ls ! k"
    using keep by (simp add: ls1_def)
  moreover have "\<forall>k. i \<le> k \<and> k < length ps \<longrightarrow>
                label_text (ls' ! k) =
                  publishedText L m ps k (d + (\<Sum>j = i..k. roundedIncrement ps j))
                    (snd (snd ax) + (\<Sum>j = i..k. unitedZ L m ps j))"
  proof (intro allI impI)
    fix k assume k: "i \<le> k \<and> k < length ps"
    show "label_text (ls' ! k) =
                  publishedText L m ps k (d + (\<Sum>j = i..k. roundedIncrement ps j))
                    (snd (snd ax) + (\<Sum>j = i..k. unitedZ L m ps j))"
    proof (cases "k = i")
      case True
      have "ls' ! i = ls1 ! i" using keep by simp
      then show ?thesis
        using True i(2) by (simp add: ls1_def d1_def)
    next
      case False
      then have k1: "i + 1 \<le> k \<and> k < length ps" using k by simp
      have s1: "(\<Sum>j = i..k. roundedIncrement ps j) =
                roundedIncrement ps i + (\<Sum>j = i + 1..k. roundedIncrement ps j)"
        using k by (simp add: sum.atLeast_Suc_atMost)
      have s2: "(\<Sum>j = i..k. unitedZ L m ps j) =
                unitedZ L m ps i + (\<Sum>j = i + 1..k. unitedZ L m ps j)"
        using k by (simp add: sum.atLeast_Suc_atMost)
      show ?thesis
        using ltexts k1 by (simp add: s1 s2 d1_def ax1_def add.assoc)
    qed
  qed
  ultimately show ?case
    using step res len total
    by (intro exI [of _ ax'] exI [of _ ls']) (simp add: ls1_def)
qed

lemma publishedText_labels [simp]:
  "publishedText L (m\<lparr> labels := ls \<rparr>) ps k t z = publishedText L m ps k t z"
  by (simp add: publishedText_def distanceLabelText_def)

lemma unitedZ_labels [simp]: "unitedZ L (m\<lparr> labels := ls \<rparr>) ps j = unitedZ L m ps j"
  by (simp add: unitedZ_def unitedAxis_def)

lemma twoDecimals_roundedIncrement: "twoDecimals (roundedIncrement ps k)"
  by (simp add: roundedIncrement_def twoDecimals_toFixed2)

lemma twoDecimals_zero: "twoDecimals 0"
  unfolding twoDecimals_def by (rule exI [of _ 0]) simp

lemma planar_label_texts:
  "\<exists>m'. DistanceMeasure_updateLabelFunc planar L m ps = Inr m' \<and>
        length (labels m') = length ps \<and>
        (\<forall>k. 1 \<le> k \<and> k < length ps \<longrightarrow>
           twoDecimals (roundedIncrement ps k) \<and>
           label_text (labels m' ! k) =
             publishedText L m ps k (\<Sum>j = 1..k. roundedIncrement ps j)
               (\<Sum>j = 1..k. unitedZ L m ps j))"
proof (cases "ps = []")
  case True
  then show ?thesis
    by (simp add: DistanceMeasure_updateLabelFunc_def DistanceMeasure_updateLabelTexts_def
        loop_done)
next
  case False
  define ls0 where "ls0 = map (\<lambda>p. \<lparr> position = p, style = labelStyle m, label_text = [] \<rparr>) ps"
  define m0 where "m0 = m\<lparr> labels := ls0 \<rparr>"
  define ls1 where "ls1 = ls0[0 := (ls0 ! 0)\<lparr> label_text := locale_start (locale_opts m0) \<rparr>]"
  have len: "length ps \<le> length ls1" "0 < length ps" "0 < length ls0"
    using False by (simp_all add: ls1_def ls0_def)
  have first: "updateLabelTexts_loop planar L m0 ps 0 0 (0, 0, 0) ls0 =
               updateLabelTexts_loop planar L m0 ps 1 0 (0, 0, 0) ls1"
    unfolding ls1_def using len(2,3) by (rule loop_step_zero)
  from planar_loop_from [OF len(1) twoDecimals_zero, of 1 L m0 "(0, 0, 0)"]
  obtain ax' ls' where
    res: "updateLabelTexts_loop planar L m0 ps 1 0 (0, 0, 0) ls1 =
            Inr (0 + (\<Sum>j = 1..<length ps. roundedIncrement ps j), ax', ls')"
    and len': "length ls' = length ls1"
    and ltexts: "\<forall>k. 1 \<le> k \<and> k < length ps \<longrightarrow>
                label_text (ls' ! k) =
                  publishedText L m0 ps k (0 + (\<Sum>j = 1..k. roundedIncrement ps j))
                    (snd (snd (0::real, 0::real, 0::real)) + (\<Sum>j = 1..k. unitedZ L m0 ps j))"
    by auto
  have "DistanceMeasure_updateLabelFunc planar L m ps = Inr (m0\<lparr> labels := ls' \<rparr>)"
    using first res
    by (cases ax')
       (simp add: DistanceMeasure_updateLabelFunc_def DistanceMeasure_updateLabelTexts_def
          m0_def ls0_def)
  moreover have "length ls' = length ps"
    using len' by (simp add: ls1_def ls0_def)
  moreover have "\<forall>k. 1 \<le> k \<and> k < length ps \<longrightarrow>
           twoDecimals (roundedIncrement ps k) \<and>
           label_text (ls' ! k) =
             publishedText L m ps k (\<Sum>j = 1..k. roundedIncrement ps j)
               (\<Sum>j = 1..k. unitedZ L m ps j)"
    using ltexts twoDecimals_roundedIncrement by (simp add: m0_def)
  ultimately show ?thesis
    by simp
qed

lemma roundedIncrement_three_points:
  "roundedIncrement three_points (Suc 0) = 1" "roundedIncrement three_points 2 = 1"
  by (simp_all add: roundedIncrement_def three_points_def DistanceMeasure_getDistance_def
      Cartesian3_distance_def toFixed2_def)

text \<open>
  C4. In the planar distance engine every segment distance is rounded to two decimals
  before it is added, and the running total published in label \<open>k\<close> is the sum of
  the rounded increments of the segments \<open>1, \<dots>, k\<close>: the update of the labels
  returns without an error, with one label for each position, and the text of label
  \<open>k\<close> is the prefix, then \<open>formatLength\<close> of that sum and of its rounded conversion,
  then the Z line and, from the second segment on, the line of the last increment. In
  the example the two segments are 1.004 long: the text shows the total 2.00, where the
  rounded raw sum is 2.01.
\<close>

theorem planar_running_total:
  "\<exists>m'. DistanceMeasure_updateLabelFunc planar L m ps = Inr m' \<and>
        length (labels m') = length ps \<and>
        (\<forall>k. 1 \<le> k \<and> k < length ps \<longrightarrow>
           twoDecimals (toFixed2 (DistanceMeasure_getDistance (ps ! (k - 1)) (ps ! k))) \<and>
           label_text (labels m' ! k) =
             (if k = length ps - 1 then locale_total (locale_opts m) @ '': '' else ''D: '') @
             formatLength (locale_opts m)
               (\<Sum>j = 1..k. toFixed2 (DistanceMeasure_getDistance (ps ! (j - 1)) (ps ! j)))
               (toFixed2 (convertLength L
                  (\<Sum>j = 1..k. toFixed2 (DistanceMeasure_getDistance (ps ! (j - 1)) (ps ! j)))
                  (units m)))
               (units m) @
             [CHR 0x0A] @ ''(Z: '' @
             formatLength (locale_opts m)
               (getCart3Height L (ps ! (k - 1)) (ps ! k))
               (\<Sum>j = 1..k. unitedAxis L m (z3 (getCart3AxisDistance (ps ! (j - 1)) (ps ! j))))
               (units m) @ '')'' @
             (if k > 1
              then [CHR 0x0A] @ ''(+'' @
                   formatLength (locale_opts m)
                     (toFixed2 (DistanceMeasure_getDistance (ps ! (k - 1)) (ps ! k)))
                     (toFixed2 (convertLength L
                        (toFixed2 (DistanceMeasure_getDistance (ps ! (k - 1)) (ps ! k)))
                        (units m)))
                     (units m) @ '')''
              else []))"
  using planar_label_texts [of L m ps]
  unfolding publishedText_def distanceLabelText_def roundedIncrement_def unitedZ_def
  by blast

theorem planar_running_total_witness:
  "\<exists>m'. DistanceMeasure_updateLabelFunc planar flat_lib metre_session three_points = Inr m' \<and>
        label_text (labels m' ! 2) =
          ''Total: 2.00m'' @ [CHR 0x0A] @ ''(Z: 0.00m)'' @ [CHR 0x0A] @ ''(+1.00m)'' \<and>
        toFixedString2
          (toFixed2 (DistanceMeasure_getDistance (three_points ! 0) (three_points ! 1) +
                     DistanceMeasure_getDistance (three_points ! 1) (three_points ! 2)))
          = ''2.01''"
proof -
  have e12: "{1..2::nat} = {1, 2}"
    by auto
  then have s: "(\<Sum>j = 1..2. toFixed2 (DistanceMeasure_getDistance (three_points ! (j - 1))
                  (three_points ! j))) = 2"
    using roundedIncrement_three_points by (simp add: roundedIncrement_def)
  have inc: "toFixed2 (DistanceMeasure_getDistance (three_points ! (2 - 1)) (three_points ! 2)) = 1"
    using roundedIncrement_three_points(2) by (simp add: roundedIncrement_def)
  have h: "getCart3Height flat_lib (three_points ! (2 - 1)) (three_points ! 2) = 0"
    by (simp add: getCart3Height_def flat_lib_def three_points_def)
  have z: "(\<Sum>j = 1..2. unitedAxis flat_lib metre_session
               (z3 (getCart3AxisDistance (three_points ! (j - 1)) (three_points ! j)))) = 0"
    using e12
    by (simp add: unitedAxis_def getCart3AxisDistance_def three_points_def flat_lib_def
        toFixed2_def)
  have show2: "toFixedString2 2 = ''2.00''" and show1: "toFixedString2 1 = ''1.00''"
    and show0: "toFixedString2 0 = ''0.00''" and show201: "toFixedString2 (201 / 100) = ''2.01''"
    by (simp_all add: toFixedString2_def showNat.simps digitChar_def Let_def)
  have raw: "toFixed2 (DistanceMeasure_getDistance (three_points ! 0) (three_points ! 1) +
                  DistanceMeasure_getDistance (three_points ! 1) (three_points ! 2)) = 201 / 100"
    by (simp add: three_points_def DistanceMeasure_getDistance_def
        Cartesian3_distance_def toFixed2_def)
  have loc: "locale_opts metre_session = metre_locale" "length three_points = 3"
    by (simp_all add: metre_session_def three_points_def)
  from planar_running_total [of flat_lib metre_session three_points]
  obtain m' where
    r: "DistanceMeasure_updateLabelFunc planar flat_lib metre_session three_points = Inr m'"
    and t: "\<forall>k. 1 \<le> k \<and> k < length three_points \<longrightarrow>
           twoDecimals (toFixed2 (DistanceMeasure_getDistance (three_points ! (k - 1))
             (three_points ! k))) \<and>
           label_text (labels m' ! k) =
             (if k = length three_points - 1
              then locale_total (locale_opts metre_session) @ '': '' else ''D: '') @
             formatLength (locale_opts metre_session)
               (\<Sum>j = 1..k. toFixed2 (DistanceMeasure_getDistance (three_points ! (j - 1))
                  (three_points ! j)))
               (toFixed2 (convertLength flat_lib
                  (\<Sum>j = 1..k. toFixed2 (DistanceMeasure_getDistance (three_points ! (j - 1))
                     (three_points ! j)))
                  (units metre_session)))
               (units metre_session) @
             [CHR 0x0A] @ ''(Z: '' @
             formatLength (locale_opts metre_session)
               (getCart3Height flat_lib (three_points ! (k - 1)) (three_points ! k))
               (\<Sum>j = 1..k. unitedAxis flat_lib metre_session
                  (z3 (getCart3AxisDistance (three_points ! (j - 1)) (three_points ! j))))
               (units metre_session) @ '')'' @
             (if k > 1
              then [CHR 0x0A] @ ''(+'' @
                   formatLength (locale_opts metre_session)
                     (toFixed2 (DistanceMeasure_getDistance (three_points ! (k - 1))
                        (three_points ! k)))
                     (toFixed2 (convertLength flat_lib
                        (toFixed2 (DistanceMeasure_getDistance (three_points ! (k - 1))
                           (three_points ! k)))
                        (units metre_session)))
                     (units metre_session) @ '')''
              else [])"
    by blast
  have k: "1 \<le> (2::nat) \<and> 2 < length three_points"
    by (simp add: loc)
  from t [rule_format, OF k]
  have "label_text (labels m' ! 2) =
          ''Total: 2.00m'' @ [CHR 0x0A] @ ''(Z: 0.00m)'' @ [CHR 0x0A] @ ''(+1.00m)''"
    by (simp only: s inc h z loc) (simp add: metre_locale_def show2 show1 show0)
  then show ?thesis
    using r by (simp only: raw show201) simp
qed

section \<open>The surface distance engine\<close>

lemma fold_add_sum:
  "fold (\<lambda>jj r. r + f jj) [0..<k] (a::real) = a + (\<Sum>jj<k. f jj)"
  by (induction k) simp_all

lemma sampleWindowPoints_length: "length (sampleWindowPoints n s e) = n + 2"
  by (simp add: sampleWindowPoints_def)

lemma sampleWindowPoints_first: "sampleWindowPoints n s e ! 0 = s"
  by (simp add: sampleWindowPoints_def)

lemma sampleWindowPoints_last: "sampleWindowPoints n s e ! (n + 1) = e"
  by (simp add: sampleWindowPoints_def nth_append)

lemma sampleWindowPoints_nth:
  assumes "1 \<le> ii" "ii \<le> n"
  shows "sampleWindowPoints n s e ! ii =
         findWindowPositionByPixelInterval s e (real ii * sampleInterval n s e)"
proof -
  obtain k where k: "ii = Suc k" "k < n"
    using assms by (cases ii) auto
  then show ?thesis
    by (simp add: sampleWindowPoints_def nth_append del: upt_Suc)
qed

lemma calculateSurfaceDistance_sum:
  "calculateSurfaceDistance L v n s e =
     (\<Sum>jj<n + 1. calculateDetailSurfaceLength L v (sampleWindowPoints n s e ! (jj + 1))
                      (sampleWindowPoints n s e ! jj))"
  by (simp add: calculateSurfaceDistance_def Let_def fold_add_sum sampleWindowPoints_length)

lemma sampleInterval_pos: "0 < n \<Longrightarrow> 0 < sampleInterval n s e"
proof -
  assume "0 < n"
  have "0 < (x2 e - x2 s)\<^sup>2 + 2"
    by (rule add_nonneg_pos) simp_all
  then show ?thesis
    using \<open>0 < n\<close> by (simp add: sampleInterval_def)
qed

lemma findWindowPosition_beyond:
  "segmentLength s e < interval \<Longrightarrow> findWindowPositionByPixelInterval s e interval = Cartesian2 0 0"
  by (simp add: findWindowPositionByPixelInterval_def segmentLength_def Let_def)

lemma findWindowPosition_within:
  assumes "0 < interval" "interval \<le> segmentLength s e"
  shows "onSegment s e (findWindowPositionByPixelInterval s e interval)"
proof -
  define len where "len = segmentLength s e"
  have len: "0 < len" "interval \<le> len"
    using assms by (simp_all add: len_def)
  have "findWindowPositionByPixelInterval s e interval =
        Cartesian2 (x2 s + interval / len * (x2 e - x2 s)) (y2 s + interval / len * (y2 e - y2 s))"
    using len(2)
    by (simp add: findWindowPositionByPixelInterval_def segmentLength_def [symmetric]
        len_def [symmetric] Let_def)
  moreover have "0 \<le> interval / len" "interval / len \<le> 1"
    using assms(1) len by simp_all
  ultimately show ?thesis
    unfolding onSegment_def by blast
qed

lemma sample_on_segment_or_origin:
  assumes "1 \<le> ii" "ii \<le> n"
  shows "sampleWindowPoints n s e ! ii = Cartesian2 0 0 \<or>
         onSegment s e (sampleWindowPoints n s e ! ii)"
proof -
  have pos: "0 < real ii * sampleInterval n s e"
    using assms sampleInterval_pos [of n s e] by simp
  show ?thesis
  proof (cases "segmentLength s e < real ii * sampleInterval n s e")
    case True
    then show ?thesis
      by (simp add: sampleWindowPoints_nth [OF assms] findWindowPosition_beyond)
  next
    case False
    then have "real ii * sampleInterval n s e \<le> segmentLength s e" by simp
    from findWindowPosition_within [OF pos this] show ?thesis
      by (simp add: sampleWindowPoints_nth [OF assms])
  qed
qed

lemma sqrt_nine_quarters: "sqrt (9 / 4) = 3 / 2"
  by (rule real_sqrt_unique) (simp_all add: power2_eq_square)

lemma sqrt_twentyfive: "sqrt 25 = 5"
  by (rule real_sqrt_unique) simp_all

lemma sqrt_one_quarter: "sqrt (1 / 4) = 1 / 2"
  by (rule real_sqrt_unique) (simp_all add: power2_eq_square)

lemma short_segment_samples:
  "sampleWindowPoints (Suc 0) (Cartesian2 1 1) (Cartesian2 (3 / 2) 1) =
     [Cartesian2 1 1, Cartesian2 0 0, Cartesian2 (3 / 2) 1]"
  by (simp add: sampleWindowPoints_def sampleInterval_def findWindowPositionByPixelInterval_def
      Let_def power2_eq_square sqrt_nine_quarters sqrt_one_quarter)

lemma origin_off_short_segment:
  "\<not> onSegment (Cartesian2 1 1) (Cartesian2 (3 / 2) 1) (Cartesian2 0 0)"
  by (simp add: onSegment_def)

text \<open>
  C2, as the claim states it, fails. With \<open>splitNum = 1\<close> and the segment from
  \<open>(1, 1)\<close> to \<open>(1.5, 1)\<close> there are three sample points, not two, and the middle
  one is the window origin, which is not on the segment.
\<close>

theorem surface_samples_counterexample:
  "sampleWindowPoints 1 (Cartesian2 1 1) (Cartesian2 (3 / 2) 1) =
     [Cartesian2 1 1, Cartesian2 0 0, Cartesian2 (3 / 2) 1] \<and>
   length (sampleWindowPoints 1 (Cartesian2 1 1) (Cartesian2 (3 / 2) 1)) \<noteq> 1 + 1 \<and>
   \<not> onSegment (Cartesian2 1 1) (Cartesian2 (3 / 2) 1) (Cartesian2 0 0)"
  by (simp add: short_segment_samples origin_off_short_segment)

text \<open>
  C2, amended. For a segment and \<open>splitNum = n\<close> (100 when the options give none) the
  engine builds \<open>n + 2\<close> sample points: the start point, then for \<open>ii = 1, \<dots>, n\<close>
  the point \<open>_findWindowPositionByPixelInterval\<close> returns for the distance
  \<open>ii * interval\<close>, which is on the segment or is the window origin, then the end
  point; and it returns the sum of the surface lengths of the \<open>n + 1\<close> pairs of
  consecutive sample points.
\<close>

theorem surface_samples:
  "length (sampleWindowPoints n s e) = n + 2 \<and>
   sampleWindowPoints n s e ! 0 = s \<and>
   sampleWindowPoints n s e ! (n + 1) = e \<and>
   (\<forall>ii. 1 \<le> ii \<and> ii \<le> n \<longrightarrow>
      sampleWindowPoints n s e ! ii =
        findWindowPositionByPixelInterval s e (real ii * sampleInterval n s e) \<and>
      (sampleWindowPoints n s e ! ii = Cartesian2 0 0 \<or>
       onSegment s e (sampleWindowPoints n s e ! ii))) \<and>
   calculateSurfaceDistance L v n s e =
     (\<Sum>jj<n + 1. calculateDetailSurfaceLength L v (sampleWindowPoints n s e ! (jj + 1))
                      (sampleWindowPoints n s e ! jj)) \<and>
   map_sum id splitNum (Measure_new DistanceSurfaceK (Some v) (options\<lparr> opt_splitNum := None \<rparr>))
     = Inr 100"
proof -
  have "\<forall>ii. 1 \<le> ii \<and> ii \<le> n \<longrightarrow>
      sampleWindowPoints n s e ! ii =
        findWindowPositionByPixelInterval s e (real ii * sampleInterval n s e) \<and>
      (sampleWindowPoints n s e ! ii = Cartesian2 0 0 \<or>
       onSegment s e (sampleWindowPoints n s e ! ii))"
    using sampleWindowPoints_nth sample_on_segment_or_origin by blast
  moreover have "map_sum id splitNum
      (Measure_new DistanceSurfaceK (Some v) (options\<lparr> opt_splitNum := None \<rparr>)) = Inr 100"
    by (simp add: Measure_new_def)
  ultimately show ?thesis
    using sampleWindowPoints_length [of n s e] sampleWindowPoints_first [of n s e]
      sampleWindowPoints_last [of n s e] calculateSurfaceDistance_sum [of L v n s e]
    by blast
qed

theorem surface_samples_witness:
  "length (sampleWindowPoints 1 (Cartesian2 1 1) (Cartesian2 (3 / 2) 1)) = 3 \<and>
   sampleWindowPoints 1 (Cartesian2 1 1) (Cartesian2 (3 / 2) 1) ! 1 = Cartesian2 0 0 \<and>
   calculateSurfaceDistance flat_lib flat_viewer 1 (Cartesian2 1 1) (Cartesian2 (3 / 2) 1) =
     calculateDetailSurfaceLength flat_lib flat_viewer (Cartesian2 0 0) (Cartesian2 1 1) +
     calculateDetailSurfaceLength flat_lib flat_viewer (Cartesian2 (3 / 2) 1) (Cartesian2 0 0)"
proof -
  have "{..<1 + 1} = {0, 1::nat}"
    by auto
  then show ?thesis
    using surface_samples [of 1 "Cartesian2 1 1" "Cartesian2 (3 / 2) 1" flat_lib flat_viewer]
    by (simp add: short_segment_samples)
qed

lemma detail_picks:
  "calculateDetailSurfaceLength L v p q =
     (case pickPosition v p of
        None \<Rightarrow> 0
      | Some a \<Rightarrow>
          (case pickPosition v q of
             None \<Rightarrow> 0
           | Some b \<Rightarrow>
               sqrt ((surfaceDistance L (fromCartesian L a) (fromCartesian L b))\<^sup>2 +
                     (height (fromCartesian L a) - height (fromCartesian L b))\<^sup>2)))"
  by (simp add: calculateDetailSurfaceLength_def pickCartesian3_def Let_def
      split: option.splits)

text \<open>
  C10. When the distance asked for is greater than the length of the segment in screen
  space, \<open>_findWindowPositionByPixelInterval\<close> returns the point \<open>(0, 0)\<close>. A sample
  \<open>ii\<close> of \<open>_calculateSurfaceDistance\<close> whose distance \<open>ii * interval\<close> is greater
  than that length is this point, and the surface length of its sub-segment is computed
  with the pick at \<open>(0, 0)\<close>: it is 0 when that pick or the pick at the next sample
  fails, and else the surface distance, with the heights, between what the scene picks
  at the next sample and what it picks at \<open>(0, 0)\<close>.
\<close>

theorem beyond_segment_window_origin:
  "(segmentLength s e < interval \<longrightarrow>
      findWindowPositionByPixelInterval s e interval = Cartesian2 0 0) \<and>
   (\<forall>ii. 1 \<le> ii \<and> ii \<le> n \<and> segmentLength s e < real ii * sampleInterval n s e \<longrightarrow>
      sampleWindowPoints n s e ! ii = Cartesian2 0 0 \<and>
      calculateDetailSurfaceLength L v (sampleWindowPoints n s e ! (ii + 1))
          (sampleWindowPoints n s e ! ii) =
        calculateDetailSurfaceLength L v (sampleWindowPoints n s e ! (ii + 1)) (Cartesian2 0 0) \<and>
      (pickCartesian3 v (Cartesian2 0 0) = None \<longrightarrow>
         calculateDetailSurfaceLength L v (sampleWindowPoints n s e ! (ii + 1))
           (sampleWindowPoints n s e ! ii) = 0) \<and>
      calculateDetailSurfaceLength L v (sampleWindowPoints n s e ! (ii + 1))
          (sampleWindowPoints n s e ! ii) =
        (case pickPosition v (sampleWindowPoints n s e ! (ii + 1)) of
           None \<Rightarrow> 0
         | Some a \<Rightarrow>
             (case pickPosition v (Cartesian2 0 0) of
                None \<Rightarrow> 0
              | Some b \<Rightarrow>
                  sqrt ((surfaceDistance L (fromCartesian L a) (fromCartesian L b))\<^sup>2 +
                        (height (fromCartesian L a) - height (fromCartesian L b))\<^sup>2))))"
proof (intro conjI allI impI)
  assume "segmentLength s e < interval"
  then show "findWindowPositionByPixelInterval s e interval = Cartesian2 0 0"
    by (rule findWindowPosition_beyond)
next
  fix ii
  assume a: "1 \<le> ii \<and> ii \<le> n \<and> segmentLength s e < real ii * sampleInterval n s e"
  then have "sampleWindowPoints n s e ! ii =
             findWindowPositionByPixelInterval s e (real ii * sampleInterval n s e)"
    by (simp add: sampleWindowPoints_nth)
  with a show o: "sampleWindowPoints n s e ! ii = Cartesian2 0 0"
    by (simp add: findWindowPosition_beyond)
  then show "calculateDetailSurfaceLength L v (sampleWindowPoints n s e ! (ii + 1))
          (sampleWindowPoints n s e ! ii) =
        calculateDetailSurfaceLength L v (sampleWindowPoints n s e ! (ii + 1)) (Cartesian2 0 0)"
    by simp
  show "calculateDetailSurfaceLength L v (sampleWindowPoints n s e ! (ii + 1))
          (sampleWindowPoints n s e ! ii) =
        (case pickPosition v (sampleWindowPoints n s e ! (ii + 1)) of
           None \<Rightarrow> 0
         | Some a \<Rightarrow>
             (case pickPosition v (Cartesian2 0 0) of
                None \<Rightarrow> 0
              | Some b \<Rightarrow>
                  sqrt ((surfaceDistance L (fromCartesian L a) (fromCartesian L b))\<^sup>2 +
                        (height (fromCartesian L a) - height (fromCartesian L b))\<^sup>2)))"
    by (simp only: o detail_picks)
  assume "pickCartesian3 v (Cartesian2 0 0) = None"
  with o show "calculateDetailSurfaceLength L v (sampleWindowPoints n s e ! (ii + 1))
           (sampleWindowPoints n s e ! ii) = 0"
    by (simp add: calculateDetailSurfaceLength_def split: option.splits)
qed

theorem beyond_segment_window_origin_witness:
  "segmentLength (Cartesian2 (5 / 2) 4) (Cartesian2 3 4) < 3 / 2 \<and>
   findWindowPositionByPixelInterval (Cartesian2 (5 / 2) 4) (Cartesian2 3 4) (3 / 2) = Cartesian2 0 0 \<and>
   segmentLength (Cartesian2 (5 / 2) 4) (Cartesian2 3 4)
     < real 1 * sampleInterval 1 (Cartesian2 (5 / 2) 4) (Cartesian2 3 4) \<and>
   sampleWindowPoints 1 (Cartesian2 (5 / 2) 4) (Cartesian2 3 4) ! 1 = Cartesian2 0 0 \<and>
   pickPosition flat_viewer (Cartesian2 0 0) = Some (Cartesian3 0 0 0) \<and>
   pickPosition flat_viewer (Cartesian2 3 4) = Some (Cartesian3 3 4 0) \<and>
   calculateDetailSurfaceLength flat_lib flat_viewer
     (sampleWindowPoints 1 (Cartesian2 (5 / 2) 4) (Cartesian2 3 4) ! (1 + 1))
     (sampleWindowPoints 1 (Cartesian2 (5 / 2) 4) (Cartesian2 3 4) ! 1) = 5"
proof -
  let ?s = "Cartesian2 (5 / 2) 4" and ?e = "Cartesian2 3 4"
  have len: "segmentLength ?s ?e = 1 / 2"
    by (simp add: segmentLength_def power2_eq_square sqrt_one_quarter)
  have int: "sampleInterval (Suc 0) ?s ?e = 3 / 2"
    by (simp add: sampleInterval_def power2_eq_square sqrt_nine_quarters)
  have pick0: "pickPosition flat_viewer (Cartesian2 0 0) = Some (Cartesian3 0 0 0)"
    and pick1: "pickPosition flat_viewer ?e = Some (Cartesian3 3 4 0)"
    by (simp_all add: flat_viewer_def)
  have next_sample: "sampleWindowPoints 1 ?s ?e ! (1 + 1) = ?e"
    by (rule sampleWindowPoints_last)
  have beyond: "segmentLength ?s ?e < 3 / 2"
    and beyond1: "(1::nat) \<le> 1 \<and> (1::nat) \<le> 1 \<and> segmentLength ?s ?e < real 1 * sampleInterval 1 ?s ?e"
    by (simp_all add: len int)
  note inst = beyond_segment_window_origin [of ?s ?e "3 / 2" 1 flat_lib flat_viewer]
  from inst beyond have "findWindowPositionByPixelInterval ?s ?e (3 / 2) = Cartesian2 0 0"
    by blast
  moreover from inst beyond1 have o: "sampleWindowPoints 1 ?s ?e ! 1 = Cartesian2 0 0"
    by blast
  moreover from inst beyond1 have
    "calculateDetailSurfaceLength flat_lib flat_viewer (sampleWindowPoints 1 ?s ?e ! (1 + 1))
       (sampleWindowPoints 1 ?s ?e ! 1) =
     (case pickPosition flat_viewer (sampleWindowPoints 1 ?s ?e ! (1 + 1)) of
        None \<Rightarrow> 0
      | Some a \<Rightarrow>
          (case pickPosition flat_viewer (Cartesian2 0 0) of
             None \<Rightarrow> 0
           | Some b \<Rightarrow>
               sqrt ((surfaceDistance flat_lib (fromCartesian flat_lib a) (fromCartesian flat_lib b))\<^sup>2 +
                     (height (fromCartesian flat_lib a) - height (fromCartesian flat_lib b))\<^sup>2)))"
    by blast
  then have "calculateDetailSurfaceLength flat_lib flat_viewer (sampleWindowPoints 1 ?s ?e ! (1 + 1))
       (sampleWindowPoints 1 ?s ?e ! 1) = 5"
    by (simp only: next_sample pick0 pick1 option.case) (simp add: flat_lib_def sqrt_twentyfive)
  ultimately show ?thesis
    using beyond beyond1 pick0 pick1 by blast
qed

lemma detail_failed_pick:
  "pickCartesian3 v p = None \<Longrightarrow>
   calculateDetailSurfaceLength L v p q = 0 \<and> calculateDetailSurfaceLength L v q p = 0"
  by (simp add: calculateDetailSurfaceLength_def split: option.splits)

text \<open>
  C5, amended. A sub-segment with an end point whose pick fails has the surface length 0,
  and nothing is raised: when the pick of sample \<open>jj\<close> fails, the total is the sum over
  the sub-segments that do not end at sample \<open>jj\<close>. The engine returns this number
  alone.
\<close>

theorem failed_pick_contributes_zero:
  "(pickCartesian3 v p = None \<longrightarrow>
      calculateDetailSurfaceLength L v p q = 0 \<and> calculateDetailSurfaceLength L v q p = 0) \<and>
   (\<forall>jj. jj \<le> n + 1 \<and> pickCartesian3 v (sampleWindowPoints n s e ! jj) = None \<longrightarrow>
      calculateSurfaceDistance L v n s e =
        (\<Sum>ii \<in> {..<n + 1} - {jj - 1, jj}.
           calculateDetailSurfaceLength L v (sampleWindowPoints n s e ! (ii + 1))
             (sampleWindowPoints n s e ! ii)))"
proof (intro conjI allI impI)
  assume "pickCartesian3 v p = None"
  then show "calculateDetailSurfaceLength L v p q = 0"
    and "calculateDetailSurfaceLength L v q p = 0"
    by (simp_all add: detail_failed_pick)
next
  fix jj
  assume a: "jj \<le> n + 1 \<and> pickCartesian3 v (sampleWindowPoints n s e ! jj) = None"
  let ?g = "\<lambda>ii. calculateDetailSurfaceLength L v (sampleWindowPoints n s e ! (ii + 1))
             (sampleWindowPoints n s e ! ii)"
  have zero: "\<forall>ii \<in> {..<n + 1} - ({..<n + 1} - {jj - 1, jj}). ?g ii = 0"
  proof
    fix ii
    assume "ii \<in> {..<n + 1} - ({..<n + 1} - {jj - 1, jj})"
    then have "ii = jj \<or> ii + 1 = jj"
      by auto
    then show "?g ii = 0"
      using a detail_failed_pick [of v "sampleWindowPoints n s e ! jj" L] by auto
  qed
  have "sum ?g {..<n + 1} = sum ?g ({..<n + 1} - {jj - 1, jj})"
    by (rule sum.mono_neutral_right) (use zero in auto)
  then show "calculateSurfaceDistance L v n s e = sum ?g ({..<n + 1} - {jj - 1, jj})"
    by (simp only: calculateSurfaceDistance_sum)
qed

lemma blind_total: "calculateSurfaceDistance L blind_viewer n s e = 0"
  by (simp add: calculateSurfaceDistance_sum calculateDetailSurfaceLength_def
      pickCartesian3_def blind_viewer_def)

lemma point_total: "calculateSurfaceDistance flat_lib point_viewer n s e = 0"
  by (simp add: calculateSurfaceDistance_sum calculateDetailSurfaceLength_def
      pickCartesian3_def point_viewer_def flat_lib_def)

theorem failed_pick_contributes_zero_witness:
  "pickCartesian3 blind_viewer (Cartesian2 1 1) = None \<and>
   calculateDetailSurfaceLength flat_lib blind_viewer (Cartesian2 1 1) (Cartesian2 0 0) = 0 \<and>
   calculateDetailSurfaceLength flat_lib blind_viewer (Cartesian2 0 0) (Cartesian2 1 1) = 0 \<and>
   pickCartesian3 blind_viewer
     (sampleWindowPoints 1 (Cartesian2 1 1) (Cartesian2 (3 / 2) 1) ! 1) = None \<and>
   calculateSurfaceDistance flat_lib blind_viewer 1 (Cartesian2 1 1) (Cartesian2 (3 / 2) 1) = 0"
proof -
  let ?s = "Cartesian2 1 1" and ?e = "Cartesian2 (3 / 2) 1"
  have pick: "pickCartesian3 blind_viewer ?s = None"
    and pick1: "(1::nat) \<le> 1 + 1 \<and> pickCartesian3 blind_viewer (sampleWindowPoints 1 ?s ?e ! 1) = None"
    by (simp_all add: pickCartesian3_def blind_viewer_def)
  have empty: "{..<1 + 1} - {1 - 1, 1::nat} = {}"
    by auto
  note inst = failed_pick_contributes_zero [of blind_viewer ?s flat_lib "Cartesian2 0 0" 1 ?s ?e]
  from inst pick have
    "calculateDetailSurfaceLength flat_lib blind_viewer ?s (Cartesian2 0 0) = 0 \<and>
     calculateDetailSurfaceLength flat_lib blind_viewer (Cartesian2 0 0) ?s = 0"
    by blast
  moreover from inst pick1 have
    "calculateSurfaceDistance flat_lib blind_viewer 1 ?s ?e =
       (\<Sum>ii \<in> {..<1 + 1} - {1 - 1, 1::nat}.
          calculateDetailSurfaceLength flat_lib blind_viewer (sampleWindowPoints 1 ?s ?e ! (ii + 1))
            (sampleWindowPoints 1 ?s ?e ! ii))"
    by blast
  then have "calculateSurfaceDistance flat_lib blind_viewer 1 ?s ?e = 0"
    by (simp only: empty sum.empty)
  ultimately show ?thesis
    using pick pick1 by blast
qed

text \<open>
  C5, as the claim states it, fails: the caller is not told of a failed pick. In a scene
  where every pick fails and in a scene where every pick hits the same point the engine
  returns the same number.
\<close>

theorem pick_gaps_counterexample:
  "map (pickCartesian3 blind_viewer) (sampleWindowPoints 1 (Cartesian2 1 1) (Cartesian2 (3 / 2) 1))
     = [None, None, None] \<and>
   map (pickCartesian3 point_viewer) (sampleWindowPoints 1 (Cartesian2 1 1) (Cartesian2 (3 / 2) 1))
     = [Some (Cartesian3 0 0 0), Some (Cartesian3 0 0 0), Some (Cartesian3 0 0 0)] \<and>
   calculateSurfaceDistance flat_lib blind_viewer 1 (Cartesian2 1 1) (Cartesian2 (3 / 2) 1) =
   calculateSurfaceDistance flat_lib point_viewer 1 (Cartesian2 1 1) (Cartesian2 (3 / 2) 1)"
proof -
  have "calculateSurfaceDistance flat_lib blind_viewer 1 (Cartesian2 1 1) (Cartesian2 (3 / 2) 1) =
        calculateSurfaceDistance flat_lib point_viewer 1 (Cartesian2 1 1) (Cartesian2 (3 / 2) 1)"
    by (simp only: blind_total point_total)
  then show ?thesis
    by (simp add: short_segment_samples pickCartesian3_def blind_viewer_def point_viewer_def)
qed

lemma segmentLength_same: "segmentLength s s = 0"
  by (simp add: segmentLength_def)

lemma coincident_sample:
  assumes "1 \<le> ii" "ii \<le> n"
  shows "sampleWindowPoints n s s ! ii = Cartesian2 0 0"
proof -
  have "0 < real ii * sampleInterval n s s"
    using assms sampleInterval_pos [of n s s] by simp
  then show ?thesis
    by (simp add: sampleWindowPoints_nth [OF assms] findWindowPosition_beyond segmentLength_same)
qed

lemma coincident_surface_distance:
  assumes "0 < n"
  shows "calculateSurfaceDistance L v n s s =
         calculateDetailSurfaceLength L v (Cartesian2 0 0) s +
         real (n - 1) * calculateDetailSurfaceLength L v (Cartesian2 0 0) (Cartesian2 0 0) +
         calculateDetailSurfaceLength L v s (Cartesian2 0 0)"
proof -
  obtain k where k: "n = Suc k"
    using assms by (cases n) auto
  let ?p = "sampleWindowPoints n s s"
  let ?g = "\<lambda>jj. calculateDetailSurfaceLength L v (?p ! (jj + 1)) (?p ! jj)"
  have top: "?g n = calculateDetailSurfaceLength L v s (Cartesian2 0 0)"
    using assms by (simp add: sampleWindowPoints_last [simplified] coincident_sample)
  have bottom: "?g 0 = calculateDetailSurfaceLength L v (Cartesian2 0 0) s"
    using assms by (simp add: sampleWindowPoints_first coincident_sample)
  have middle: "?g (Suc jj) = calculateDetailSurfaceLength L v (Cartesian2 0 0) (Cartesian2 0 0)"
    if "jj < k" for jj
    using that k by (simp add: coincident_sample)
  have e1: "(\<Sum>jj<n + 1. ?g jj) = (\<Sum>jj<n. ?g jj) + ?g n"
    by simp
  have e2: "(\<Sum>jj<n. ?g jj) = ?g 0 + (\<Sum>jj<k. ?g (Suc jj))"
    unfolding k by (rule sum.lessThan_Suc_shift)
  have "(\<Sum>jj<k. ?g (Suc jj)) =
        (\<Sum>jj<k. calculateDetailSurfaceLength L v (Cartesian2 0 0) (Cartesian2 0 0))"
    by (rule sum.cong) (use middle in simp_all)
  then have e3: "(\<Sum>jj<k. ?g (Suc jj)) =
        real k * calculateDetailSurfaceLength L v (Cartesian2 0 0) (Cartesian2 0 0)"
    by simp
  have "calculateSurfaceDistance L v n s s = ?g 0 + (\<Sum>jj<k. ?g (Suc jj)) + ?g n"
    by (simp only: calculateSurfaceDistance_sum e1 e2)
  then show ?thesis
    by (simp only: e3 top bottom) (simp add: k)
qed

text \<open>
  C6. For two coincident points the planar distance is 0, and the surface distance is
  not: the samples between the two end points are at the window origin, and a position
  seen at the window point \<open>(3, 4)\<close> of a flat scene is at the surface distance 10 of
  itself.
\<close>

theorem coincident_points_distance:
  "DistanceSurfaceMeasure_getDistance flat_lib (fresh DistanceSurfaceK)
     (Cartesian3 3 4 0) (Cartesian3 3 4 0) = Inr 10 \<and>
   DistanceMeasure_getDistance (Cartesian3 3 4 0) (Cartesian3 3 4 0) = 0"
proof -
  have d: "calculateDetailSurfaceLength flat_lib flat_viewer (Cartesian2 0 0) (Cartesian2 3 4) = 5"
    "calculateDetailSurfaceLength flat_lib flat_viewer (Cartesian2 3 4) (Cartesian2 0 0) = 5"
    "calculateDetailSurfaceLength flat_lib flat_viewer (Cartesian2 0 0) (Cartesian2 0 0) = 0"
    by (simp_all add: calculateDetailSurfaceLength_def pickCartesian3_def flat_viewer_def
        flat_lib_def sqrt_twentyfive)
  have "calculateSurfaceDistance flat_lib flat_viewer 100 (Cartesian2 3 4) (Cartesian2 3 4) = 10"
    by (simp add: coincident_surface_distance d)
  then show ?thesis
    by (simp add: DistanceSurfaceMeasure_getDistance_def fresh_def flat_viewer_def
        DistanceMeasure_getDistance_def Cartesian3_distance_def)
qed

section \<open>The area engine with fewer than three positions\<close>

text \<open>
  C3, as the claim states it, fails for \<open>getArea\<close>: it has no guard on the number of
  positions, and for two positions, or one, the ring it closes has fewer than four
  entries, which \<open>polygon\<close> rejects with an exception.
\<close>

theorem getArea_few_points_counterexample:
  "AreaMeasure_getArea (fresh AreaK) [Cartesian3 0 0 0, Cartesian3 1 0 0] =
     Inl (Error ''Each LinearRing of a Polygon must have 4 or more Positions.'') \<and>
   AreaMeasure_getArea (fresh AreaK) [Cartesian3 0 0 0] =
     Inl (Error ''Each LinearRing of a Polygon must have 4 or more Positions.'')"
  by (simp add: AreaMeasure_getArea_def AreaMeasure_ring_def cartesian2Lonlat_def turf_polygon_def)

text \<open>
  C3, amended. For fewer than three positions the update of an area session removes the
  labels and returns, without computing an area and without an exception. For one
  position the update of a distance session sets the text of the one label to the start
  text, with the running distance 0.
\<close>

theorem few_points_update:
  "(length ps < 3 \<longrightarrow> AreaMeasure_updateLabelFunc L m ps = Inr (m\<lparr> labels := [] \<rparr>)) \<and>
   DistanceMeasure_updateLabelFunc planar L m [p] =
     Inr (m\<lparr> labels := [\<lparr> position = p, style = labelStyle m,
                           label_text = locale_start (locale_opts m) \<rparr>] \<rparr>) \<and>
   updateLabelTexts_loop planar L m [p] 0 0 (0, 0, 0) [l] =
     Inr (0, (0, 0, 0), [l\<lparr> label_text := locale_start (locale_opts m) \<rparr>])"
proof (intro conjI impI)
  assume "length ps < 3"
  then show "AreaMeasure_updateLabelFunc L m ps = Inr (m\<lparr> labels := [] \<rparr>)"
    by (simp add: AreaMeasure_updateLabelFunc_def)
next
  have one: "updateLabelTexts_loop planar L m' [p] 0 0 (0, 0, 0) [l'] =
     Inr (0, (0, 0, 0), [l'\<lparr> label_text := locale_start (locale_opts m') \<rparr>])" for m' l'
    by (simp add: loop_step_zero loop_done)
  show "updateLabelTexts_loop planar L m [p] 0 0 (0, 0, 0) [l] =
     Inr (0, (0, 0, 0), [l\<lparr> label_text := locale_start (locale_opts m) \<rparr>])"
    by (rule one)
  show "DistanceMeasure_updateLabelFunc planar L m [p] =
     Inr (m\<lparr> labels := [\<lparr> position = p, style = labelStyle m,
                           label_text = locale_start (locale_opts m) \<rparr>] \<rparr>)"
    by (simp add: DistanceMeasure_updateLabelFunc_def DistanceMeasure_updateLabelTexts_def one)
qed

theorem few_points_update_witness:
  "length [Cartesian3 0 0 0, Cartesian3 1 0 0] < 3 \<and>
   AreaMeasure_updateLabelFunc flat_lib area_working [Cartesian3 0 0 0, Cartesian3 1 0 0] =
     Inr (area_working\<lparr> labels := [] \<rparr>) \<and>
   labels (area_working\<lparr> labels := [] \<rparr>) = []"
  using few_points_update [of "[Cartesian3 0 0 0, Cartesian3 1 0 0]" flat_lib area_working]
  by simp

section \<open>The planar area engine\<close>

lemma sum_cyclic_shift:
  fixes g :: "nat \<Rightarrow> real"
  assumes "0 < n"
  shows "(\<Sum>j<n. g ((j + 1) mod n)) = (\<Sum>j<n. g j)"
proof -
  obtain k where k: "n = Suc k"
    using assms by (cases n) auto
  have "(\<Sum>j<Suc k. g ((j + 1) mod Suc k)) = (\<Sum>j<k. g ((j + 1) mod Suc k)) + g 0"
    by simp
  also have "(\<Sum>j<k. g ((j + 1) mod Suc k)) = (\<Sum>j<k. g (Suc j))"
    by (rule sum.cong) simp_all
  also have "(\<Sum>j<k. g (Suc j)) + g 0 = (\<Sum>j<Suc k. g j)"
    by (simp only: sum.lessThan_Suc_shift add.commute)
  finally show ?thesis
    by (simp only: k)
qed

lemma prev_next:
  fixes k n :: nat
  assumes "k < n"
  shows "((k + 1) mod n + n - 1) mod n = k"
proof (cases "k + 1 = n")
  case True
  then have "(k + 1) mod n = 0" by simp
  then show ?thesis using True by auto
next
  case False
  then have "(k + 1) mod n = k + 1" using assms by simp
  moreover have "k + 1 + n - 1 = k + n" by simp
  ultimately show ?thesis using assms by simp
qed

lemma next_next:
  fixes i n :: nat
  shows "(i + 2) mod n = ((i + 1) mod n + 1) mod n"
proof -
  have "((i + 1) mod n + 1) mod n = (i + 1 + 1) mod n"
    by (rule mod_add_left_eq)
  then show ?thesis by simp
qed

lemma flip_next:
  fixes k n :: nat
  assumes "k < n"
  shows "n - Suc ((k + 1) mod n) = ((n - Suc k) + n - 1) mod n"
proof (cases "k + 1 = n")
  case True
  then have "(k + 1) mod n = 0" and "n - Suc k = 0" by simp_all
  then show ?thesis using assms by simp
next
  case False
  then have lt: "k + 1 < n" using assms by simp
  then have "(k + 1) mod n = k + 1" by simp
  moreover have "(n - Suc k) + n - 1 = (n - Suc (Suc k)) + n" using lt by simp
  moreover have "((n - Suc (Suc k)) + n) mod n = n - Suc (Suc k)"
    by (subst mod_add_self2) (use lt in simp)
  ultimately show ?thesis by simp
qed

lemma flip_prev:
  fixes k n :: nat
  assumes "k < n"
  shows "n - Suc ((k + n - 1) mod n) = ((n - Suc k) + 1) mod n"
proof (cases "k = 0")
  case True
  then show ?thesis using assms by simp
next
  case False
  then obtain j where j: "k = Suc j" by (cases k) auto
  then have "(k + n - 1) mod n = j" using assms by simp
  moreover have "(n - Suc k) + 1 = n - k" using assms by simp
  moreover have "(n - k) mod n = n - k" using assms j by simp
  ultimately show ?thesis using j by simp
qed

lemma vertexTerm_centred:
  assumes "0 < n"
  shows "(\<Sum>i<n. vertexTerm a b n i) =
         (\<Sum>k<n. (a ((k + 1) mod n) - a ((k + n - 1) mod n)) * b k)"
proof -
  let ?c = "\<lambda>k. (a ((k + 1) mod n) - a ((k + n - 1) mod n)) * b k"
  have "(\<Sum>i<n. vertexTerm a b n i) = (\<Sum>i<n. ?c ((i + 1) mod n))"
  proof (rule sum.cong)
    fix i assume "i \<in> {..<n}"
    then have "i < n" by simp
    then show "vertexTerm a b n i = ?c ((i + 1) mod n)"
      by (simp only: vertexTerm_def next_next [of i n] prev_next)
  qed simp
  also have "\<dots> = (\<Sum>k<n. ?c k)"
    using assms by (rule sum_cyclic_shift)
  finally show ?thesis .
qed

lemma vertexTerm_reversed:
  assumes "0 < n"
  shows "(\<Sum>i<n. vertexTerm (\<lambda>k. a (n - Suc k)) (\<lambda>k. b (n - Suc k)) n i) =
         - (\<Sum>i<n. vertexTerm a b n i)"
proof -
  let ?c = "\<lambda>k. (a ((k + 1) mod n) - a ((k + n - 1) mod n)) * b k"
  have "(\<Sum>i<n. vertexTerm (\<lambda>k. a (n - Suc k)) (\<lambda>k. b (n - Suc k)) n i) =
        (\<Sum>k<n. (a (n - Suc ((k + 1) mod n)) - a (n - Suc ((k + n - 1) mod n))) * b (n - Suc k))"
    using assms by (rule vertexTerm_centred)
  also have "\<dots> = (\<Sum>k<n. - ?c (n - Suc k))"
  proof (rule sum.cong)
    fix k assume "k \<in> {..<n}"
    then have k: "k < n" by simp
    show "(a (n - Suc ((k + 1) mod n)) - a (n - Suc ((k + n - 1) mod n))) * b (n - Suc k) =
          - ?c (n - Suc k)"
      by (simp only: flip_next [OF k] flip_prev [OF k]) (simp add: algebra_simps)
  qed simp
  also have "\<dots> = (\<Sum>k<n. - ?c k)"
    by (rule sum.nat_diff_reindex)
  also have "\<dots> = - (\<Sum>i<n. vertexTerm a b n i)"
    using assms by (simp add: vertexTerm_centred sum_negf)
  finally show ?thesis .
qed

lemma vertexTerm_cong:
  assumes "\<And>j. j < n \<Longrightarrow> a j = a' j" "\<And>j. j < n \<Longrightarrow> b j = b' j" "i < n"
  shows "vertexTerm a b n i = vertexTerm a' b' n i"
proof -
  have "(i + 2) mod n < n" "(i + 1) mod n < n"
    using assms(3) by simp_all
  then show ?thesis
    using assms by (simp add: vertexTerm_def)
qed

lemma ringArea_loop_sum:
  "i \<le> n \<Longrightarrow>
   ringArea_loop coords n i t =
     t + (\<Sum>k = i..<n. vertexTerm (lonRadians coords) (sinLat coords) n k)"
proof (induction "n - i" arbitrary: i t)
  case 0
  then show ?case
    by (subst ringArea_loop.simps) simp
next
  case (Suc d)
  then have i: "i < n" and d: "d = n - (i + 1)" and le: "i + 1 \<le> n"
    by simp_all
  have mid: "(if i + 1 = n then 0 else i + 1) = (i + 1) mod n"
    using i by simp
  have up: "(if i + 2 \<ge> n then (i + 2) mod n else i + 2) = (i + 2) mod n"
    by simp
  have "ringArea_loop coords n i t =
        ringArea_loop coords n (i + 1) (t + vertexTerm (lonRadians coords) (sinLat coords) n i)"
    using i
    by (subst ringArea_loop.simps)
       (simp only: mid up Let_def vertexTerm_def lonRadians_def sinLat_def if_True)
  also have "\<dots> = t + vertexTerm (lonRadians coords) (sinLat coords) n i +
                   (\<Sum>k = i + 1..<n. vertexTerm (lonRadians coords) (sinLat coords) n k)"
    by (rule Suc.hyps(1) [OF d le])
  also have "\<dots> = t + (\<Sum>k = i..<n. vertexTerm (lonRadians coords) (sinLat coords) n k)"
    using i by (simp add: sum.atLeast_Suc_lessThan)
  finally show ?case .
qed

lemma ringArea_closed:
  assumes "3 \<le> length lonlats"
  shows "ringArea (lonlats @ [lonlats ! 0]) =
         (\<Sum>k<length lonlats. vertexTerm (lonRadians lonlats) (sinLat lonlats) (length lonlats) k)
           * FACTOR"
proof -
  let ?n = "length lonlats"
  let ?ring = "lonlats @ [lonlats ! 0]"
  have "ringArea_loop ?ring ?n 0 0 =
        (\<Sum>k = 0..<?n. vertexTerm (lonRadians ?ring) (sinLat ?ring) ?n k)"
    by (simp add: ringArea_loop_sum)
  also have "\<dots> = (\<Sum>k = 0..<?n. vertexTerm (lonRadians lonlats) (sinLat lonlats) ?n k)"
    by (rule sum.cong)
       (auto intro!: vertexTerm_cong simp add: lonRadians_def sinLat_def nth_append)
  finally show ?thesis
    using assms by (simp add: ringArea_def Let_def atLeast0LessThan)
qed

lemma ringArea_reversed:
  assumes "3 \<le> length lonlats"
  shows "ringArea (rev lonlats @ [rev lonlats ! 0]) = - ringArea (lonlats @ [lonlats ! 0])"
proof -
  let ?n = "length lonlats"
  have n: "0 < ?n" "3 \<le> length (rev lonlats)"
    using assms by (linarith, simp)
  have "(\<Sum>k<?n. vertexTerm (lonRadians (rev lonlats)) (sinLat (rev lonlats)) ?n k) =
        (\<Sum>k<?n. vertexTerm (\<lambda>j. lonRadians lonlats (?n - Suc j))
                     (\<lambda>j. sinLat lonlats (?n - Suc j)) ?n k)"
    by (rule sum.cong)
       (auto intro!: vertexTerm_cong simp add: lonRadians_def sinLat_def rev_nth)
  also have "\<dots> = - (\<Sum>k<?n. vertexTerm (lonRadians lonlats) (sinLat lonlats) ?n k)"
    using n(1) by (rule vertexTerm_reversed)
  finally show ?thesis
    using ringArea_closed [OF assms] ringArea_closed [OF n(2)]
    by simp
qed

lemma cartesian2Lonlat_rev: "cartesian2Lonlat m (rev ps) = rev (cartesian2Lonlat m ps)"
  by (simp add: cartesian2Lonlat_def rev_map)

lemma cartesian2Lonlat_length: "length (cartesian2Lonlat m ps) = length ps"
  by (simp add: cartesian2Lonlat_def)

lemma hd_closed_ring: "l \<noteq> [] \<Longrightarrow> hd (l @ [l ! 0]) = l ! 0"
  by (cases l) simp_all

lemma getArea_ring:
  assumes "3 \<le> length ps"
  shows "AreaMeasure_getArea m ps = Inr \<bar>ringArea (AreaMeasure_ring m ps)\<bar>"
proof -
  let ?l = "cartesian2Lonlat m ps"
  have l: "3 \<le> length ?l"
    using assms by (simp add: cartesian2Lonlat_length)
  then have "0 < length ?l"
    by linarith
  then have ne: "?l \<noteq> []"
    by auto
  note l = l ne
  have "hd (?l @ [?l ! 0]) = ?l ! 0"
    using ne by (rule hd_closed_ring)
  then have "turf_polygon_check [AreaMeasure_ring m ps] = None"
    using l by (simp add: AreaMeasure_ring_def Let_def)
  moreover have "ps \<noteq> []"
    using assms by auto
  ultimately show ?thesis
    by (simp add: AreaMeasure_getArea_def turf_polygon_def turf_area_def)
qed

text \<open>
  C7. For three positions or more \<open>getArea\<close> closes the ring itself: the ring it hands
  on is the list of the converted positions followed by the first of them, one entry
  longer than the list of positions, with equal first and last entries. The area
  returned is not negative, and it is the same for the positions in reverse order.
\<close>

theorem planar_area_ring:
  assumes "3 \<le> length ps"
  shows "\<exists>a. AreaMeasure_getArea m ps = Inr a \<and> 0 \<le> a \<and>
             AreaMeasure_getArea m (rev ps) = Inr a \<and>
             a = turf_area [AreaMeasure_ring m ps] \<and>
             AreaMeasure_ring m ps = cartesian2Lonlat m ps @ [cartesian2Lonlat m ps ! 0] \<and>
             length (AreaMeasure_ring m ps) = length ps + 1 \<and>
             last (AreaMeasure_ring m ps) = hd (AreaMeasure_ring m ps)"
proof -
  let ?l = "cartesian2Lonlat m ps"
  have l: "3 \<le> length ?l"
    using assms by (simp add: cartesian2Lonlat_length)
  then have "0 < length ?l"
    by linarith
  then have ne: "?l \<noteq> []"
    by auto
  note l = l ne
  have r: "3 \<le> length (rev ps)"
    using assms by simp
  have "ringArea (AreaMeasure_ring m (rev ps)) = - ringArea (AreaMeasure_ring m ps)"
    using ringArea_reversed [OF l(1)]
    by (simp add: AreaMeasure_ring_def Let_def cartesian2Lonlat_rev)
  then have "AreaMeasure_getArea m (rev ps) = Inr \<bar>ringArea (AreaMeasure_ring m ps)\<bar>"
    by (simp add: getArea_ring [OF r])
  moreover have "last (AreaMeasure_ring m ps) = hd (AreaMeasure_ring m ps)"
  proof -
    have "hd (AreaMeasure_ring m ps) = ?l ! 0"
      unfolding AreaMeasure_ring_def Let_def using l(2) by (rule hd_closed_ring)
    moreover have "last (AreaMeasure_ring m ps) = ?l ! 0"
      by (simp add: AreaMeasure_ring_def Let_def)
    ultimately show ?thesis by simp
  qed
  moreover have "length (AreaMeasure_ring m ps) = length ps + 1"
    by (simp add: AreaMeasure_ring_def Let_def cartesian2Lonlat_length)
  moreover have "\<bar>ringArea (AreaMeasure_ring m ps)\<bar> = turf_area [AreaMeasure_ring m ps]"
    by (simp add: turf_area_def)
  ultimately show ?thesis
    using getArea_ring [OF assms, of m] by (simp add: AreaMeasure_ring_def Let_def)
qed

theorem planar_area_ring_witness:
  "3 \<le> length triangle \<and>
   (\<exists>a. AreaMeasure_getArea (fresh AreaK) triangle = Inr a \<and> 0 \<le> a \<and>
        AreaMeasure_getArea (fresh AreaK) (rev triangle) = Inr a) \<and>
   length (AreaMeasure_ring (fresh AreaK) triangle) = 4"
proof -
  have t: "3 \<le> length triangle"
    by (simp add: triangle_def)
  from planar_area_ring [OF t, of "fresh AreaK"]
  show ?thesis
    using t by (auto simp add: triangle_def)
qed

end
